theory Spec2Isabelle
  imports Main "HOL-Library.Sublist" "HOL-Library.Char_ord" "HOL-Library.List_Lexorder"
begin

section \<open>Python values shared by both handlers\<close>

text \<open>
  The two entry points are \<^verbatim>\<open>source/create-lambda-layer.py\<close> (the build orchestrator)
  and \<^verbatim>\<open>source/test-lambda-layer.py\<close> (the deployment validator). Both are called
  \<^verbatim>\<open>lambda_handler\<close> in their own module; here they are \<open>lambda_handler_create\<close> and
  \<open>lambda_handler_test\<close>.

  A provisioning event is a dictionary; the handlers read the keys \<^verbatim>\<open>RequestType\<close> and
  \<^verbatim>\<open>ResourceProperties\<close>, and the properties are a dictionary from property names to
  strings. A missing key is \<open>None\<close>, as \<^verbatim>\<open>dict.get\<close> returns.
\<close>

type_synonym properties = "string \<rightharpoonup> string"

record event =
  RequestType :: "string option"
  ResourceProperties :: "properties option"

text \<open>\<^verbatim>\<open>d.get(k, default)\<close>\<close>

definition dict_get :: "properties \<Rightarrow> string \<Rightarrow> string \<Rightarrow> string" where
  "dict_get d k dflt = (case d k of None \<Rightarrow> dflt | Some v \<Rightarrow> v)"

text \<open>\<^verbatim>\<open>event.get('ResourceProperties', {})\<close>\<close>

definition event_properties :: "event \<Rightarrow> properties" where
  "event_properties ev = (case ResourceProperties ev of None \<Rightarrow> Map.empty | Some p \<Rightarrow> p)"

text \<open>
  \<^verbatim>\<open>cfnresponse.send(event, context, status, data, reason=...)\<close>: the call is recorded
  with the status, the payload and the reason it was given. The call itself does not
  raise (the module catches the errors of its own request).
\<close>

record 'd cfn_send =
  responseStatus :: string
  responseData :: 'd
  reason :: "string option"

definition SUCCESS :: string where
  "SUCCESS = ''SUCCESS''"

definition FAILED :: string where
  "FAILED = ''FAILED''"

text \<open>Decimal rendering of a natural number and of an integer (\<^verbatim>\<open>str(n)\<close>, \<^verbatim>\<open>"%d" % n\<close>).\<close>

definition digit_char :: "nat \<Rightarrow> char" where
  "digit_char d = ''0123456789'' ! d"

fun str_nat :: "nat \<Rightarrow> string" where
  "str_nat n = (if n < 10 then [digit_char n] else str_nat (n div 10) @ [digit_char (n mod 10)])"

declare str_nat.simps [simp del]

definition str_int :: "int \<Rightarrow> string" where
  "str_int i = (if i < 0 then CHR ''-'' # str_nat (nat (- i)) else str_nat (nat i))"

text \<open>
  \<^verbatim>\<open>s.replace(old, new)\<close> where \<^verbatim>\<open>old\<close> is one character: every occurrence of the
  character is replaced by the string \<^verbatim>\<open>new\<close>.
\<close>

definition str_replace :: "char \<Rightarrow> string \<Rightarrow> string \<Rightarrow> string" where
  "str_replace old new s = concat (map (\<lambda>c. if c = old then new else [c]) s)"

text \<open>\<^verbatim>\<open>sep.join(xs)\<close>\<close>

fun str_join :: "string \<Rightarrow> string list \<Rightarrow> string" where
  "str_join sep [] = []"
| "str_join sep [x] = x"
| "str_join sep (x # y # ys) = x @ sep @ str_join sep (y # ys)"

section \<open>The deployment validator (\<^verbatim>\<open>test-lambda-layer.py\<close>)\<close>

record test_response =
  Status :: string
  Message :: string
  TestPackage :: string
  TestPackageVersion :: string
  TestRuntime :: string
  TestArchitecture :: string

text \<open>
  What \<^verbatim>\<open>importlib.import_module(name)\<close> does in the runtime the validator runs in: it
  returns a module, whose \<^verbatim>\<open>__version__\<close> attribute is a string or is absent; it raises
  \<^verbatim>\<open>ImportError\<close>; or it raises an exception of another class (for instance a
  \<^verbatim>\<open>ValueError\<close> on an empty name, or an error of the module's own top-level code).
\<close>

datatype import_outcome =
  Imported "string option"
| RaisesImportError string
| RaisesOther string

text \<open>
  The runtime the validator observes: \<^verbatim>\<open>sys.version_info.major\<close> and \<^verbatim>\<open>.minor\<close>,
  \<^verbatim>\<open>platform.machine()\<close> and the behaviour of \<^verbatim>\<open>importlib.import_module\<close>.
\<close>

record runtime_env =
  version_info_major :: nat
  version_info_minor :: nat
  platform_machine :: string
  import_module :: "string \<Rightarrow> import_outcome"

text \<open>
  What a run of the validator leaves behind: the dictionary it returns, the calls of
  \<^verbatim>\<open>cfnresponse.send\<close> in order, and the module names it tried to import.
\<close>

record test_run =
  test_returned :: test_response
  test_sent :: "test_response cfn_send list"
  test_imports :: "string list"

definition test_response_data :: test_response where
  "test_response_data =
     \<lparr>Status = '''', Message = '''', TestPackage = '''', TestPackageVersion = '''',
      TestRuntime = '''', TestArchitecture = ''''\<rparr>"

text \<open>\<^verbatim>\<open>f"python{sys.version_info.major}.{sys.version_info.minor}"\<close>\<close>

definition current_runtime :: "runtime_env \<Rightarrow> string" where
  "current_runtime env =
     ''python'' @ str_nat (version_info_major env) @ ''.'' @ str_nat (version_info_minor env)"

text \<open>\<^verbatim>\<open>"arm64" if current_arch == "aarch64" else current_arch\<close>\<close>

definition current_arch :: "runtime_env \<Rightarrow> string" where
  "current_arch env =
     (if platform_machine env = ''aarch64'' then ''arm64'' else platform_machine env)"

text \<open>
  The inner \<^verbatim>\<open>try\<close> around the import: the pair (installed version, package status), or
  the exception that is not an \<^verbatim>\<open>ImportError\<close> and so leaves the inner \<^verbatim>\<open>try\<close>.
\<close>

definition import_package :: "runtime_env \<Rightarrow> string \<Rightarrow> string + (string \<times> string)" where
  "import_package env package_import_name =
     (case import_module env package_import_name of
        Imported v \<Rightarrow>
          Inr (case v of None \<Rightarrow> ''Version Not Found'' | Some s \<Rightarrow> s, ''INSTALLED'')
      | RaisesImportError m \<Rightarrow> Inr (''NOT INSTALLED'', ''NOT INSTALLED'')
      | RaisesOther m \<Rightarrow> Inl m)"

definition overall_status :: "string \<Rightarrow> string \<Rightarrow> string \<Rightarrow> string \<Rightarrow> string \<Rightarrow> string \<Rightarrow> string \<Rightarrow> string" where
  "overall_status package_status installed_version target_version cur_runtime target_runtime
      cur_arch target_architecture =
     (if list_all id
          [package_status = ''INSTALLED'',
           installed_version = target_version,
           cur_runtime = target_runtime,
           cur_arch = target_architecture]
      then ''SUCCESS'' else ''FAILED'')"

definition test_message :: "string \<Rightarrow> string \<Rightarrow> string \<Rightarrow> string \<Rightarrow> string \<Rightarrow> string \<Rightarrow> string \<Rightarrow> string \<Rightarrow> string" where
  "test_message package_name package_status target_version installed_version target_runtime
      cur_runtime target_architecture cur_arch =
     ''Installation: Target: '' @ package_name @ '', Current: '' @ package_status @ ''. '' @
     ''Version: Target: '' @ target_version @ '', Current: '' @ installed_version @ ''. '' @
     ''Runtime: Target: '' @ target_runtime @ '', Current: '' @ cur_runtime @ ''. '' @
     ''Architecture: Target: '' @ target_architecture @ '', Current: '' @ cur_arch @ ''. ''"

definition lambda_handler_test :: "event \<Rightarrow> runtime_env \<Rightarrow> test_run" where
  "lambda_handler_test ev env =
     (let response_data = test_response_data in
      if RequestType ev = Some ''Delete'' then
        \<lparr>test_returned = response_data,
         test_sent = [\<lparr>responseStatus = SUCCESS, responseData = response_data, reason = None\<rparr>],
         test_imports = []\<rparr>
      else
        let properties = event_properties ev;
            package_name = dict_get properties ''PackageName'' ''N/A'';
            package_import_name = dict_get properties ''PackageImportName'' ''N/A'';
            target_version = dict_get properties ''PackageVersion'' ''N/A'';
            target_runtime = dict_get properties ''Runtime'' ''N/A'';
            target_architecture = dict_get properties ''Architecture'' ''N/A'';
            cur_runtime = current_runtime env;
            cur_arch = current_arch env
        in case import_package env package_import_name of
             Inr (installed_version, package_status) \<Rightarrow>
               let status = overall_status package_status installed_version target_version
                              cur_runtime target_runtime cur_arch target_architecture;
                   msg = test_message package_name package_status target_version
                           installed_version target_runtime cur_runtime target_architecture
                           cur_arch;
                   response_data = response_data\<lparr>Status := status, Message := msg\<rparr>
               in \<lparr>test_returned = response_data,
                   test_sent = [\<lparr>responseStatus = status, responseData = response_data,
                                 reason = None\<rparr>],
                   test_imports = [package_import_name]\<rparr>
           | Inl error_message \<Rightarrow>
               let response_data = response_data\<lparr>Status := ''FAILED'', Message := error_message\<rparr>
               in \<lparr>test_returned = response_data,
                   test_sent = [\<lparr>responseStatus = FAILED, responseData = response_data,
                                 reason = Some error_message\<rparr>],
                   test_imports = [package_import_name]\<rparr>)"

section \<open>The build orchestrator (\<^verbatim>\<open>create-lambda-layer.py\<close>)\<close>

record create_response =
  S3Location :: string
  S3Bucket :: string
  S3Key :: string
  PackageName :: string
  PackageVersion :: string
  PackageImportName :: string
  CompatibleRuntimes :: string
  CompatibleArchitectures :: string

definition create_response_data :: create_response where
  "create_response_data =
     \<lparr>S3Location = '''', S3Bucket = '''', S3Key = '''', PackageName = '''',
      PackageVersion = '''', PackageImportName = '''', CompatibleRuntimes = '''',
      CompatibleArchitectures = ''''\<rparr>"

text \<open>
  Exceptions. The handler only ever reads \<^verbatim>\<open>str(e)\<close>, the message; \<open>Raised\<close> is an
  exception that comes out of a library call, with the message the library gave it.
\<close>

datatype exn =
  ValueError string
| FileNotFoundError string
| Exception string
| Raised string

fun str_exn :: "exn \<Rightarrow> string" where
  "str_exn (ValueError m) = m"
| "str_exn (FileNotFoundError m) = m"
| "str_exn (Exception m) = m"
| "str_exn (Raised m) = m"

definition SUPPORTED_PACKAGES :: "string list" where
  "SUPPORTED_PACKAGES =
     [''boto3'', ''requests'', ''urllib3'', ''aws-lambda-powertools'', ''aws-xray-sdk'']"

subsection \<open>The outside world\<close>

text \<open>
  What the registry answers to \<^verbatim>\<open>http.request('GET', url)\<close>: the request raises, or a
  response comes back with a status and a body. The body is not JSON
  (\<^verbatim>\<open>json.loads\<close> raises), or it is an object without \<^verbatim>\<open>info\<close> (so that
  \<^verbatim>\<open>data.get("info").get\<close> raises an \<^verbatim>\<open>AttributeError\<close>), or it has an \<^verbatim>\<open>info\<close>
  object whose \<^verbatim>\<open>version\<close> is a string or is absent.
\<close>

datatype pypi_body =
  NotJson string
| NoInfo
| Info "string option"

datatype http_outcome =
  RequestRaises string
| Response int pypi_body

text \<open>
  What a library call that writes to the file system or to the content store does: it
  returns; it raises before writing anything; or it raises after it has written part of
  its output, which it leaves behind (a failed \<^verbatim>\<open>pip install\<close> leaves its target
  directory, and \<^verbatim>\<open>shutil.make_archive\<close>, which opens the archive for writing before
  it adds the first member, leaves a truncated archive).
\<close>

datatype outcome =
  Returns
| Raises string
| RaisesLeaving string

record build_env =
  http_request :: "string \<Rightarrow> http_outcome"
  pip_install :: "string \<Rightarrow> string \<Rightarrow> outcome"
  os_makedirs :: "string \<Rightarrow> outcome"
  shutil_move :: "string \<Rightarrow> string \<Rightarrow> outcome"
  shutil_make_archive :: "string \<Rightarrow> string \<Rightarrow> string \<Rightarrow> outcome"
  upload_file :: "string \<Rightarrow> string \<Rightarrow> string \<Rightarrow> outcome"

text \<open>The calls that leave the process, in the order they are made.\<close>

datatype call =
  HttpGet string
| PipInstall string string
| UploadFile string string string

text \<open>
  The state a run changes: the paths that exist in the local file system, and the log of
  outside calls.
\<close>

record world =
  files :: "string set"
  calls :: "call list"

subsection \<open>Paths and the file system\<close>

text \<open>\<^verbatim>\<open>os.path.join(a, b)\<close> on POSIX: an absolute \<open>b\<close> discards \<open>a\<close>.\<close>

definition os_path_join :: "string \<Rightarrow> string \<Rightarrow> string" where
  "os_path_join a b =
     (if b \<noteq> [] \<and> hd b = CHR ''/'' then b
      else if a = [] \<or> last a = CHR ''/'' then a @ b
      else a @ ''/'' @ b)"

text \<open>
  \<^verbatim>\<open>os.path.splitext(p)[0]\<close>: the extension starts at the last dot of the last path
  component, unless only dots come before it in that component.
\<close>

definition splitext_root :: "string \<Rightarrow> string" where
  "splitext_root p =
     (let base = rev (takeWhile (\<lambda>c. c \<noteq> CHR ''/'') (rev p));
          dir = rev (dropWhile (\<lambda>c. c \<noteq> CHR ''/'') (rev p));
          stem = rev (drop 1 (dropWhile (\<lambda>c. c \<noteq> CHR ''.'') (rev base)))
      in if CHR ''.'' \<in> set base \<and> list_ex (\<lambda>c. c \<noteq> CHR ''.'') stem then dir @ stem else p)"

text \<open>\<open>path_under d p\<close>: the path \<open>p\<close> is the directory \<open>d\<close> or lies inside it.\<close>

definition path_under :: "string \<Rightarrow> string \<Rightarrow> bool" where
  "path_under d p \<longleftrightarrow> p = d \<or> prefix (d @ ''/'') p"

definition os_path_exists :: "world \<Rightarrow> string \<Rightarrow> bool" where
  "os_path_exists w p \<longleftrightarrow> p \<in> files w"

text \<open>
  \<^verbatim>\<open>shutil.rmtree(d)\<close> removes the directory and everything inside it. The calls that
  only look or remove (\<^verbatim>\<open>os.path.exists\<close>, \<^verbatim>\<open>shutil.rmtree\<close>, \<^verbatim>\<open>os.remove\<close>) are
  taken to do so without raising.
\<close>

definition rmtree :: "string \<Rightarrow> world \<Rightarrow> world" where
  "rmtree d w = w\<lparr>files := Set.filter (\<lambda>p. \<not> path_under d p) (files w)\<rparr>"

text \<open>\<^verbatim>\<open>os.remove(p)\<close>\<close>

definition os_remove :: "string \<Rightarrow> world \<Rightarrow> world" where
  "os_remove p w = w\<lparr>files := files w - {p}\<rparr>"

text \<open>
  \<^verbatim>\<open>for dir_path in temp_dirs: if os.path.exists(dir_path): shutil.rmtree(dir_path)\<close>
\<close>

fun remove_dirs :: "string list \<Rightarrow> world \<Rightarrow> world" where
  "remove_dirs [] w = w"
| "remove_dirs (dir_path # ds) w =
     remove_dirs ds (if os_path_exists w dir_path then rmtree dir_path w else w)"

text \<open>The proper ancestors of a path: its prefixes that end before a separator.\<close>

definition parents :: "string \<Rightarrow> string list" where
  "parents p = map (\<lambda>i. take i p) (filter (\<lambda>i. p ! i = CHR ''/'') [1..<length p])"

text \<open>
  The effect of each writing call on the file system, by its outcome.
  \<^verbatim>\<open>pip install --target d\<close> creates \<open>d\<close>; \<^verbatim>\<open>os.makedirs(p, exist_ok=True)\<close> creates
  \<open>p\<close> and its missing ancestors (a failed call may have created the ancestors);
  \<^verbatim>\<open>shutil.move(src, dst)\<close> renames \<open>src\<close> to \<open>dst\<close> (a failed call may have started the
  copy and not removed the source); \<^verbatim>\<open>shutil.make_archive(base, 'zip', ...)\<close> writes
  \<open>base + ".zip"\<close>.
\<close>

definition add_files :: "string list \<Rightarrow> world \<Rightarrow> world" where
  "add_files ps w = w\<lparr>files := files w \<union> set ps\<rparr>"

definition effect :: "outcome \<Rightarrow> (world \<Rightarrow> world) \<Rightarrow> (world \<Rightarrow> world) \<Rightarrow> world \<Rightarrow> world" where
  "effect out done partial w =
     (case out of Returns \<Rightarrow> done w | Raises m \<Rightarrow> w | RaisesLeaving m \<Rightarrow> partial w)"

fun raised :: "outcome \<Rightarrow> string option" where
  "raised Returns = None"
| "raised (Raises m) = Some m"
| "raised (RaisesLeaving m) = Some m"

definition log_call :: "call \<Rightarrow> world \<Rightarrow> world" where
  "log_call c w = w\<lparr>calls := calls w @ [c]\<rparr>"

subsection \<open>Strings the orchestrator builds\<close>

definition quote :: string where
  "quote = [CHR 0x27]"

text \<open>
  \<^verbatim>\<open>repr(s)\<close> of a string, for \<^verbatim>\<open>str([s])\<close>: single quotes unless the string has a
  single quote and no double quote; the backslash, the chosen quote and the control
  characters are escaped.
\<close>

definition hex2 :: "nat \<Rightarrow> string" where
  "hex2 n = [''0123456789abcdef'' ! (n div 16 mod 16), ''0123456789abcdef'' ! (n mod 16)]"

definition repr_char :: "char \<Rightarrow> char \<Rightarrow> string" where
  "repr_char q c =
     (if c = CHR 0x5C then [CHR 0x5C, CHR 0x5C]
      else if c = q then [CHR 0x5C, q]
      else if c = CHR 0x0A then [CHR 0x5C, CHR ''n'']
      else if c = CHR 0x0D then [CHR 0x5C, CHR ''r'']
      else if c = CHR 0x09 then [CHR 0x5C, CHR ''t'']
      else if (of_char c :: nat) < 32 \<or> (of_char c :: nat) = 127
        then [CHR 0x5C, CHR ''x''] @ hex2 (of_char c)
      else [c])"

definition py_repr :: "string \<Rightarrow> string" where
  "py_repr s =
     (let q = (if CHR 0x27 \<in> set s \<and> CHR 0x22 \<notin> set s then CHR 0x22 else CHR 0x27)
      in [q] @ concat (map (repr_char q) s) @ [q])"

text \<open>\<^verbatim>\<open>str([s])\<close>\<close>

definition str_list1 :: "string \<Rightarrow> string" where
  "str_list1 s = ''['' @ py_repr s @ '']''"

text \<open>\<^verbatim>\<open>package_name.replace('-', '_')\<close>\<close>

definition package_import_name :: "string \<Rightarrow> string" where
  "package_import_name package_name = str_replace CHR ''-'' ''_'' package_name"

text \<open>\<^verbatim>\<open>f"{runtime.replace('.', '')}-{architecture}-{package_name}"\<close>\<close>

definition layer_name :: "string \<Rightarrow> string \<Rightarrow> string \<Rightarrow> string" where
  "layer_name runtime architecture package_name =
     str_replace CHR ''.'' '''' runtime @ ''-'' @ architecture @ ''-'' @ package_name"

text \<open>\<^verbatim>\<open>f'{layer_name}.zip'\<close>\<close>

definition s3_key :: "string \<Rightarrow> string \<Rightarrow> string \<Rightarrow> string" where
  "s3_key runtime architecture package_name =
     layer_name runtime architecture package_name @ ''.zip''"

subsection \<open>\<^verbatim>\<open>get_latest_package_version\<close>\<close>

definition pypi_url :: "string \<Rightarrow> string" where
  "pypi_url package_name = ''https://pypi.org/pypi/'' @ package_name @ ''/json''"

text \<open>The body of the \<^verbatim>\<open>try\<close>: the version, or the message of what was raised.\<close>

definition pypi_version :: "build_env \<Rightarrow> string \<Rightarrow> string + string" where
  "pypi_version env package_name =
     (case http_request env (pypi_url package_name) of
        RequestRaises m \<Rightarrow> Inl m
      | Response status body \<Rightarrow>
          if status \<noteq> 200 then Inl (''PyPI request failed with status '' @ str_int status)
          else (case body of
                  NotJson m \<Rightarrow> Inl m
                | NoInfo \<Rightarrow>
                    Inl (quote @ ''NoneType'' @ quote @ '' object has no attribute '' @
                         quote @ ''get'' @ quote)
                | Info version \<Rightarrow>
                    (case version of
                       None \<Rightarrow> Inl ''Version information not found in PyPI response''
                     | Some v \<Rightarrow>
                         if v = [] then Inl ''Version information not found in PyPI response''
                         else Inr v)))"

definition get_latest_package_version :: "build_env \<Rightarrow> string \<Rightarrow> world \<Rightarrow> (exn + string) \<times> world" where
  "get_latest_package_version env package_name w =
     (let w1 = log_call (HttpGet (pypi_url package_name)) w in
      case pypi_version env package_name of
        Inl m \<Rightarrow>
          (Inl (Exception (''Failed to get latest version for '' @ package_name @ '': '' @ m)), w1)
      | Inr version \<Rightarrow> (Inr version, w1))"

subsection \<open>\<^verbatim>\<open>create_layer_package\<close>\<close>

definition temp_root :: string where
  "temp_root = ''/tmp''"

definition site_packages_dir :: string where
  "site_packages_dir = os_path_join temp_root ''site-packages''"

definition python_dir :: string where
  "python_dir = os_path_join temp_root ''python''"

definition temp_dirs :: "string list" where
  "temp_dirs = [site_packages_dir, python_dir]"

text \<open>
  \<^verbatim>\<open>os.path.join(temp_root, f"{package_name}-{runtime_version}-{package_version}.zip")\<close>
\<close>

definition zip_file_path :: "string \<Rightarrow> string \<Rightarrow> string \<Rightarrow> string" where
  "zip_file_path package_name package_version runtime_version =
     os_path_join temp_root
       (package_name @ ''-'' @ runtime_version @ ''-'' @ package_version @ ''.zip'')"

text \<open>
  The body of the \<^verbatim>\<open>try\<close> of \<^verbatim>\<open>create_layer_package\<close>: the path of the archive, or the
  exception that the \<^verbatim>\<open>except\<close> clause will wrap; and the world as the body leaves it.
\<close>

definition layer_package_steps :: "build_env \<Rightarrow> string \<Rightarrow> string \<Rightarrow> string \<Rightarrow> world \<Rightarrow> (exn + string) \<times> world" where
  "layer_package_steps env package_name package_version runtime_version w =
     (let zip_file = zip_file_path package_name package_version runtime_version;
          w1 = remove_dirs temp_dirs w;
          w2 = (if os_path_exists w1 zip_file then os_remove zip_file w1 else w1);
          requirement = package_name @ ''=='' @ package_version;
          pip = pip_install env requirement site_packages_dir;
          w3 = effect pip (add_files [site_packages_dir]) (add_files [site_packages_dir])
                 (log_call (PipInstall requirement site_packages_dir) w2)
      in case raised pip of
           Some m \<Rightarrow> (Inl (Raised m), w3)
         | None \<Rightarrow>
      let python_lib_path = os_path_join (os_path_join python_dir ''lib'') runtime_version;
          mk = os_makedirs env python_lib_path;
          w4 = effect mk (add_files (parents python_lib_path @ [python_lib_path]))
                 (add_files (parents python_lib_path)) w3
      in case raised mk of
           Some m \<Rightarrow> (Inl (Raised m), w4)
         | None \<Rightarrow>
      let dst = os_path_join python_lib_path ''site-packages'';
          mv = shutil_move env site_packages_dir dst;
          w5 = effect mv (\<lambda>w. add_files [dst] (rmtree site_packages_dir w)) (add_files [dst]) w4
      in case raised mv of
           Some m \<Rightarrow> (Inl (Raised m), w5)
         | None \<Rightarrow>
      let zip_base = splitext_root zip_file;
          ar = shutil_make_archive env zip_base temp_root ''python'';
          w6 = effect ar (add_files [zip_base @ ''.zip'']) (add_files [zip_base @ ''.zip'']) w5
      in case raised ar of
           Some m \<Rightarrow> (Inl (Raised m), w6)
         | None \<Rightarrow>
             if \<not> os_path_exists w6 zip_file
             then (Inl (FileNotFoundError (''Failed to create ZIP file: '' @ zip_file)), w6)
             else (Inr zip_file, w6))"

text \<open>
  The argument check is made before the \<^verbatim>\<open>try\<close>; the \<^verbatim>\<open>except\<close> clause wraps what the
  body raised; the \<^verbatim>\<open>finally\<close> clause removes the two staging directories.
\<close>

definition create_layer_package :: "build_env \<Rightarrow> string \<Rightarrow> string \<Rightarrow> string \<Rightarrow> world \<Rightarrow> (exn + string) \<times> world" where
  "create_layer_package env package_name package_version runtime_version w =
     (if \<not> list_all (\<lambda>s. s \<noteq> []) [package_name, package_version, runtime_version]
      then (Inl (ValueError ''Missing required parameters for package installation.''), w)
      else
        case layer_package_steps env package_name package_version runtime_version w of
          (Inl e, w1) \<Rightarrow>
            (Inl (Exception (''Layer package creation failed: '' @ str_exn e)),
             remove_dirs temp_dirs w1)
        | (Inr zip_file, w1) \<Rightarrow> (Inr zip_file, remove_dirs temp_dirs w1))"

subsection \<open>\<^verbatim>\<open>lambda_handler\<close> of the orchestrator\<close>

text \<open>
  \<^verbatim>\<open>required_props\<close>, in the order the dictionary literal lists its keys, with the value
  \<^verbatim>\<open>properties.get(k)\<close> of each.
\<close>

definition required_props :: "properties \<Rightarrow> (string \<times> string option) list" where
  "required_props properties =
     [(''BucketName'', properties ''BucketName''),
      (''PackageName'', properties ''PackageName''),
      (''Runtime'', properties ''Runtime''),
      (''Architecture'', properties ''Architecture'')]"

text \<open>\<^verbatim>\<open>not v\<close> for a value that is \<^verbatim>\<open>None\<close> or a string.\<close>

fun falsy :: "string option \<Rightarrow> bool" where
  "falsy None = True"
| "falsy (Some s) = (s = [])"

text \<open>\<^verbatim>\<open>[k for k, v in required_props.items() if not v]\<close>\<close>

definition missing_props :: "properties \<Rightarrow> string list" where
  "missing_props properties = map fst (filter (\<lambda>(k, v). falsy v) (required_props properties))"

text \<open>
  The string held by a property. It is read only after the check of the required
  properties, where every one of them is a non-empty string.
\<close>

fun str_value :: "string option \<Rightarrow> string" where
  "str_value None = []"
| "str_value (Some s) = s"

text \<open>
  The \<^verbatim>\<open>try\<close>/\<^verbatim>\<open>finally\<close> around the upload: the archive is removed whether or not
  \<^verbatim>\<open>upload_file\<close> raised.
\<close>

definition upload_layer :: "build_env \<Rightarrow> string \<Rightarrow> string \<Rightarrow> string \<Rightarrow> world \<Rightarrow> (exn + unit) \<times> world" where
  "upload_layer env zip_file bucket_name key w =
     (let up = upload_file env zip_file bucket_name key;
          w1 = log_call (UploadFile zip_file bucket_name key) w;
          w2 = (if os_path_exists w1 zip_file then os_remove zip_file w1 else w1)
      in case raised up of
           Some m \<Rightarrow> (Inl (Raised m), w2)
         | None \<Rightarrow> (Inr (), w2))"

text \<open>
  The body of the handler's \<^verbatim>\<open>try\<close>: the updated response data, or the exception that
  reaches the handler's \<^verbatim>\<open>except\<close> clause.
\<close>

definition build_layer :: "event \<Rightarrow> build_env \<Rightarrow> world \<Rightarrow> (exn + create_response) \<times> world" where
  "build_layer ev env w =
     (let properties = event_properties ev;
          missing = missing_props properties
      in if missing \<noteq> []
         then (Inl (ValueError (''Missing required properties: '' @ str_join '', '' missing)), w)
         else
      let bucket_name = str_value (properties ''BucketName'');
          package_name = str_value (properties ''PackageName'');
          runtime = str_value (properties ''Runtime'');
          architecture = str_value (properties ''Architecture'')
      in if package_name \<notin> set SUPPORTED_PACKAGES
         then (Inl (ValueError (''Package '' @ quote @ package_name @ quote @
                      '' is not supported. Supported packages: '' @
                      str_join '', '' (sort SUPPORTED_PACKAGES) @ [CHR 0x0A])), w)
         else
      case get_latest_package_version env package_name w of
        (Inl e, w1) \<Rightarrow> (Inl e, w1)
      | (Inr package_version, w1) \<Rightarrow>
      case create_layer_package env package_name package_version runtime w1 of
        (Inl e, w2) \<Rightarrow> (Inl e, w2)
      | (Inr zip_file, w2) \<Rightarrow>
      let key = s3_key runtime architecture package_name
      in case upload_layer env zip_file bucket_name key w2 of
        (Inl e, w3) \<Rightarrow> (Inl e, w3)
      | (Inr u, w3) \<Rightarrow>
          (Inr (create_response_data
                 \<lparr>S3Location := ''s3://'' @ bucket_name @ ''/'' @ key,
                  S3Bucket := bucket_name,
                  S3Key := key,
                  PackageName := package_name,
                  PackageVersion := package_version,
                  PackageImportName := package_import_name package_name,
                  CompatibleRuntimes := str_list1 runtime,
                  CompatibleArchitectures := str_list1 architecture\<rparr>), w3))"

text \<open>
  What a run of the orchestrator leaves behind: the dictionary it returns, the calls of
  \<^verbatim>\<open>cfnresponse.send\<close> in order, and the world.
\<close>

record create_run =
  create_returned :: create_response
  create_sent :: "create_response cfn_send list"
  create_world :: world

definition lambda_handler_create :: "event \<Rightarrow> build_env \<Rightarrow> world \<Rightarrow> create_run" where
  "lambda_handler_create ev env w =
     (let response_data = create_response_data in
      if RequestType ev = Some ''Delete'' then
        \<lparr>create_returned = response_data,
         create_sent = [\<lparr>responseStatus = ''SUCCESS'', responseData = response_data,
                         reason = None\<rparr>],
         create_world = w\<rparr>
      else
        case build_layer ev env w of
          (Inr updated, w1) \<Rightarrow>
            \<lparr>create_returned = updated,
             create_sent = [\<lparr>responseStatus = ''SUCCESS'', responseData = updated,
                             reason = None\<rparr>],
             create_world = w1\<rparr>
        | (Inl e, w1) \<Rightarrow>
            let error_msg = ''Lambda Layer creation failed: '' @ str_exn e
            in \<lparr>create_returned = response_data,
                create_sent = [\<lparr>responseStatus = ''FAILED'', responseData = response_data,
                                reason = Some error_msg\<rparr>],
                create_world = w1\<rparr>)"

section \<open>Example invocations\<close>

text \<open>
  A build event for \<^verbatim>\<open>aws-lambda-powertools\<close> on \<^verbatim>\<open>python3.12\<close>/\<^verbatim>\<open>arm64\<close>, a world
  in which the registry answers version 3.4.0 and every call returns, and a scratch root
  that holds nothing yet.
\<close>

definition example_properties :: properties where
  "example_properties =
     [''BucketName'' \<mapsto> ''my-bucket'', ''PackageName'' \<mapsto> ''aws-lambda-powertools'',
      ''Runtime'' \<mapsto> ''python3.12'', ''Architecture'' \<mapsto> ''arm64'']"

definition example_event :: event where
  "example_event =
     \<lparr>RequestType = Some ''Create'', ResourceProperties = Some example_properties\<rparr>"

definition example_env :: build_env where
  "example_env =
     \<lparr>http_request = (\<lambda>url. Response 200 (Info (Some ''3.4.0''))),
      pip_install = (\<lambda>requirement target. Returns),
      os_makedirs = (\<lambda>path. Returns),
      shutil_move = (\<lambda>src dst. Returns),
      shutil_make_archive = (\<lambda>base_name root_dir base_dir. Returns),
      upload_file = (\<lambda>filename bucket key. Returns)\<rparr>"

definition example_world :: world where
  "example_world = \<lparr>files = {''/tmp''}, calls = []\<rparr>"

text \<open>The same world, where the upload is refused.\<close>

definition example_env_upload_fails :: build_env where
  "example_env_upload_fails =
     example_env\<lparr>upload_file := (\<lambda>filename bucket key. Raises ''Access Denied'')\<rparr>"

text \<open>
  The same world, where the scratch root fills up while the archive is being written:
  \<^verbatim>\<open>shutil.make_archive\<close> raises and the archive it had opened stays on disk.
\<close>

definition example_env_archive_fails :: build_env where
  "example_env_archive_fails =
     example_env\<lparr>shutil_make_archive :=
       (\<lambda>base_name root_dir base_dir. RaisesLeaving ''[Errno 28] No space left on device'')\<rparr>"

text \<open>A delete event.\<close>

definition example_delete_event :: event where
  "example_delete_event =
     \<lparr>RequestType = Some ''Delete'', ResourceProperties = Some example_properties\<rparr>"

text \<open>A build event that names a package outside the supported list.\<close>

definition example_unsupported_event :: event where
  "example_unsupported_event =
     \<lparr>RequestType = Some ''Create'',
      ResourceProperties = Some (example_properties(''PackageName'' \<mapsto> ''numpy''))\<rparr>"

text \<open>
  A validation event for the layer built above, and a Python 3.12 runtime on a machine
  that reports \<^verbatim>\<open>aarch64\<close>, where the module imports with the expected version.
\<close>

definition example_test_event :: event where
  "example_test_event =
     \<lparr>RequestType = Some ''Create'',
      ResourceProperties = Some
        [''PackageName'' \<mapsto> ''aws-lambda-powertools'',
         ''PackageImportName'' \<mapsto> ''aws_lambda_powertools'',
         ''PackageVersion'' \<mapsto> ''3.4.0'',
         ''Runtime'' \<mapsto> ''python3.12'',
         ''Architecture'' \<mapsto> ''arm64'']\<rparr>"

definition example_runtime :: runtime_env where
  "example_runtime =
     \<lparr>version_info_major = 3, version_info_minor = 12, platform_machine = ''aarch64'',
      import_module = (\<lambda>name. if name = ''aws_lambda_powertools'' then Imported (Some ''3.4.0'')
                              else RaisesImportError ''No module named it'')\<rparr>"

text \<open>The string a property of the event holds, as the handler's local variables have it.\<close>

abbreviation property :: "event \<Rightarrow> string \<Rightarrow> string" where
  "property ev k \<equiv> str_value (event_properties ev k)"

text \<open>A build event that lacks the bucket and the architecture.\<close>

definition example_missing_event :: event where
  "example_missing_event =
     \<lparr>RequestType = Some ''Create'',
      ResourceProperties = Some
        [''PackageName'' \<mapsto> ''aws-lambda-powertools'', ''Runtime'' \<mapsto> ''python3.12'',
         ''Architecture'' \<mapsto> '''']\<rparr>"

text \<open>
  A second build of the same package, runtime and architecture: into another bucket, on
  a day the registry answers a newer version.
\<close>

definition example_event_other_bucket :: event where
  "example_event_other_bucket =
     \<lparr>RequestType = Some ''Update'',
      ResourceProperties = Some (example_properties(''BucketName'' \<mapsto> ''other-bucket''))\<rparr>"

definition example_env_newer_version :: build_env where
  "example_env_newer_version =
     example_env\<lparr>http_request := (\<lambda>url. Response 200 (Info (Some ''3.5.1'')))\<rparr>"

section \<open>Auxiliary facts\<close>

subsection \<open>Strings and paths\<close>

lemma str_replace_delete: "str_replace c [] s = filter (\<lambda>x. x \<noteq> c) s"
  by (induction s) (auto simp: str_replace_def)

lemma str_replace_single: "str_replace c [d] s = map (\<lambda>x. if x = c then d else x) s"
  by (induction s) (auto simp: str_replace_def)

lemma files_remove_dirs_subset: "files (remove_dirs ds w) \<subseteq> files w"
proof (induction ds arbitrary: w)
  case Nil
  then show ?case by simp
next
  case (Cons a ds)
  have "files (if os_path_exists w a then rmtree a w else w) \<subseteq> files w"
    by (auto simp: rmtree_def)
  with Cons [of "if os_path_exists w a then rmtree a w else w"] show ?case
    by (simp del: if_split)
qed

lemma calls_remove_dirs: "calls (remove_dirs ds w) = calls w"
  by (induction ds arbitrary: w) (auto simp: rmtree_def)

lemma remove_dirs_removes: "d \<in> set ds \<Longrightarrow> d \<notin> files (remove_dirs ds w)"
proof (induction ds arbitrary: w)
  case Nil
  then show ?case by simp
next
  case (Cons a ds)
  show ?case
  proof (cases "d = a")
    case True
    have "a \<notin> files (if os_path_exists w a then rmtree a w else w)"
      by (simp add: os_path_exists_def rmtree_def path_under_def)
    then show ?thesis
      using files_remove_dirs_subset True by fastforce
  next
    case False
    with Cons show ?thesis by simp
  qed
qed

lemma get_latest_world:
  "get_latest_package_version env n w = (r, w1) \<Longrightarrow>
     files w1 = files w \<and> calls w1 = calls w @ [HttpGet (pypi_url n)]"
  by (auto simp: get_latest_package_version_def log_call_def Let_def split: sum.splits)

lemma get_latest_version_nonempty:
  "get_latest_package_version env n w = (Inr v, w1) \<Longrightarrow> v \<noteq> []"
  by (auto simp: get_latest_package_version_def pypi_version_def Let_def
      split: sum.splits http_outcome.splits pypi_body.splits option.splits if_splits)

lemma calls_effect:
  "(\<And>w. calls (f w) = calls w) \<Longrightarrow> (\<And>w. calls (g w) = calls w) \<Longrightarrow> calls (effect out f g w) = calls w"
  by (cases out) (auto simp: effect_def)

lemma calls_add_files [simp]: "calls (add_files ps w) = calls w"
  by (simp add: add_files_def)

lemma calls_rmtree [simp]: "calls (rmtree d w) = calls w"
  by (simp add: rmtree_def)

lemma calls_os_remove [simp]: "calls (os_remove d w) = calls w"
  by (simp add: os_remove_def)

lemma steps_calls:
  "layer_package_steps env n v r w = (res, w1) \<Longrightarrow>
     calls w1 = calls w @ [PipInstall (n @ ''=='' @ v) site_packages_dir]"
  by (auto simp: layer_package_steps_def Let_def calls_effect calls_remove_dirs log_call_def
       split: option.splits if_splits)

lemma steps_result:
  "layer_package_steps env n v r w = (Inr z, w1) \<Longrightarrow> z = zip_file_path n v r"
  by (auto simp: layer_package_steps_def Let_def split: option.splits if_splits)


lemma create_layer_package_calls:
  assumes "create_layer_package env n v r w = (res, w1)" "n \<noteq> []" "v \<noteq> []" "r \<noteq> []"
  shows "calls w1 = calls w @ [PipInstall (n @ ''=='' @ v) site_packages_dir]"
proof -
  obtain res0 w0 where s: "layer_package_steps env n v r w = (res0, w0)"
    by (cases "layer_package_steps env n v r w")
  from assms s have "w1 = remove_dirs temp_dirs w0"
    by (auto simp: create_layer_package_def split: sum.splits)
  with steps_calls [OF s] show ?thesis
    by (simp add: calls_remove_dirs)
qed

lemma create_layer_package_result:
  "create_layer_package env n v r w = (Inr z, w1) \<Longrightarrow> z = zip_file_path n v r"
  by (auto simp: create_layer_package_def split: sum.splits if_splits prod.splits dest: steps_result)

lemma create_layer_package_dirs:
  assumes "create_layer_package env n v r w = (res, w1)" "n \<noteq> []" "v \<noteq> []" "r \<noteq> []"
  shows "site_packages_dir \<notin> files w1 \<and> python_dir \<notin> files w1"
proof -
  obtain res0 w0 where s: "layer_package_steps env n v r w = (res0, w0)"
    by (cases "layer_package_steps env n v r w")
  from assms s have "w1 = remove_dirs temp_dirs w0"
    by (auto simp: create_layer_package_def split: sum.splits)
  moreover have "site_packages_dir \<in> set temp_dirs" "python_dir \<in> set temp_dirs"
    by (simp_all add: temp_dirs_def)
  ultimately show ?thesis
    using remove_dirs_removes by blast
qed

lemma upload_layer_world:
  "upload_layer env z b k w = (res, w1) \<Longrightarrow>
     calls w1 = calls w @ [UploadFile z b k] \<and> files w1 = files w - {z}"
  by (auto simp: upload_layer_def Let_def log_call_def os_path_exists_def os_remove_def
      split: option.splits if_splits)

lemma upload_layer_result:
  "upload_layer env z b k w = (Inr u, w1) \<longleftrightarrow>
     upload_file env z b k = Returns \<and> w1 = snd (upload_layer env z b k w)"
  by (cases "upload_file env z b k") (auto simp: upload_layer_def Let_def)


lemma build_layer_success:
  assumes "build_layer ev env w = (Inr d, w')"
  shows "missing_props (event_properties ev) = [] \<and>
         str_value (event_properties ev ''PackageName'') \<in> set SUPPORTED_PACKAGES \<and>
         (\<exists>v w1 w2.
            get_latest_package_version env (str_value (event_properties ev ''PackageName'')) w = (Inr v, w1) \<and>
            create_layer_package env (str_value (event_properties ev ''PackageName'')) v
               (str_value (event_properties ev ''Runtime'')) w1
              = (Inr (zip_file_path (str_value (event_properties ev ''PackageName'')) v
                       (str_value (event_properties ev ''Runtime''))), w2) \<and>
            upload_layer env (zip_file_path (str_value (event_properties ev ''PackageName'')) v
                       (str_value (event_properties ev ''Runtime'')))
               (str_value (event_properties ev ''BucketName''))
               (s3_key (str_value (event_properties ev ''Runtime''))
                  (str_value (event_properties ev ''Architecture''))
                  (str_value (event_properties ev ''PackageName''))) w2 = (Inr (), w') \<and>
            d = create_response_data
                 \<lparr>S3Location := ''s3://'' @ str_value (event_properties ev ''BucketName'') @ ''/'' @
                    s3_key (str_value (event_properties ev ''Runtime''))
                      (str_value (event_properties ev ''Architecture''))
                      (str_value (event_properties ev ''PackageName'')),
                  S3Bucket := str_value (event_properties ev ''BucketName''),
                  S3Key := s3_key (str_value (event_properties ev ''Runtime''))
                      (str_value (event_properties ev ''Architecture''))
                      (str_value (event_properties ev ''PackageName'')),
                  PackageName := str_value (event_properties ev ''PackageName''),
                  PackageVersion := v,
                  PackageImportName := package_import_name (str_value (event_properties ev ''PackageName'')),
                  CompatibleRuntimes := str_list1 (str_value (event_properties ev ''Runtime'')),
                  CompatibleArchitectures := str_list1 (str_value (event_properties ev ''Architecture''))\<rparr>)"
  using assms
  by (auto simp: build_layer_def Let_def split: if_splits prod.splits sum.splits
      dest!: create_layer_package_result)


lemma supported_name:
  "n \<in> set SUPPORTED_PACKAGES \<Longrightarrow> 5 \<le> length n \<and> n \<noteq> [] \<and> hd n \<noteq> CHR ''/''"
  by (auto simp: SUPPORTED_PACKAGES_def)

lemma last_os_path_join: "b \<noteq> [] \<Longrightarrow> last (os_path_join a b) = last b"
  by (simp add: os_path_join_def)

lemma last_zip_file_path: "last (zip_file_path n v r) = CHR ''p''"
  by (simp add: zip_file_path_def last_os_path_join)

lemma length_zip_file_path:
  "n \<noteq> [] \<Longrightarrow> hd n \<noteq> CHR ''/'' \<Longrightarrow>
     length (zip_file_path n v r) = 11 + length n + length r + length v"
  by (cases n) (simp_all add: zip_file_path_def os_path_join_def temp_root_def)

lemma length_python_lib_path:
  "length (os_path_join (os_path_join python_dir ''lib'') r) \<le> 16 + length r"
  by (simp add: os_path_join_def python_dir_def temp_root_def)

lemma length_parents: "q \<in> set (parents p) \<Longrightarrow> length q < length p"
  by (auto simp: parents_def)

lemma zip_not_site: "zip_file_path n v r \<noteq> site_packages_dir"
proof
  assume "zip_file_path n v r = site_packages_dir"
  then have "last (zip_file_path n v r) = last site_packages_dir" by simp
  then show False
    by (simp add: last_zip_file_path site_packages_dir_def os_path_join_def temp_root_def)
qed

lemma zip_not_dst: "zip_file_path n v r \<noteq> os_path_join x ''site-packages''"
proof
  assume "zip_file_path n v r = os_path_join x ''site-packages''"
  then have "last (zip_file_path n v r) = last (os_path_join x ''site-packages'')" by simp
  then show False
    by (simp add: last_zip_file_path last_os_path_join)
qed

lemma zip_not_made:
  assumes "n \<in> set SUPPORTED_PACKAGES" "v \<noteq> []"
  shows "zip_file_path n v r \<notin> set (parents (os_path_join (os_path_join python_dir ''lib'') r))"
    and "zip_file_path n v r \<noteq> os_path_join (os_path_join python_dir ''lib'') r"
proof -
  let ?p = "os_path_join (os_path_join python_dir ''lib'') r"
  from assms have "length (zip_file_path n v r) = 11 + length n + length r + length v"
    using supported_name length_zip_file_path by blast
  moreover from assms have "5 \<le> length n" "1 \<le> length v"
    using supported_name by (auto simp: Suc_le_eq)
  ultimately have big: "length ?p < length (zip_file_path n v r)"
    using length_python_lib_path [of r] by linarith
  show "zip_file_path n v r \<notin> set (parents ?p)"
    using big length_parents [of "zip_file_path n v r" ?p] by auto
  show "zip_file_path n v r \<noteq> ?p"
    using big by auto
qed

lemma files_effect_add:
  "files (effect out (add_files ps) (add_files qs) w) \<subseteq> files w \<union> set ps \<union> set qs"
  by (cases out) (auto simp: effect_def add_files_def)

lemma files_remove_dirs_mem: "p \<in> files (remove_dirs ds w) \<Longrightarrow> p \<in> files w"
  using files_remove_dirs_subset by blast

lemma steps_zip_absent:
  assumes s: "layer_package_steps env n v r w = (Inl e, w1)"
    and n: "n \<in> set SUPPORTED_PACKAGES" and v: "v \<noteq> []"
    and ar: "\<forall>m. shutil_make_archive env (splitext_root (zip_file_path n v r)) temp_root ''python''
               \<noteq> RaisesLeaving m"
  shows "zip_file_path n v r \<notin> files w1"
proof -
  note d = zip_not_site [of n v r] zip_not_made [OF n v, of r]
    zip_not_dst [of n v r "os_path_join (os_path_join python_dir ''lib'') r"]
  show ?thesis
    using s ar d
    by (auto simp: layer_package_steps_def Let_def effect_def add_files_def rmtree_def
        os_path_exists_def os_remove_def log_call_def
        split: option.splits if_splits outcome.splits)
qed

lemma missing_props_empty:
  "missing_props p = [] \<longleftrightarrow>
     \<not> falsy (p ''BucketName'') \<and> \<not> falsy (p ''PackageName'') \<and> \<not> falsy (p ''Runtime'') \<and>
     \<not> falsy (p ''Architecture'')"
  by (auto simp: missing_props_def required_props_def)

lemma not_falsy: "\<not> falsy x \<Longrightarrow> str_value x \<noteq> []"
  by (cases x) auto

lemma build_layer_trace:
  assumes "build_layer ev env w = (res, w')"
  shows "\<exists>cs. calls w' = calls w @ cs \<and>
           (\<forall>f b k. UploadFile f b k \<in> set cs \<longrightarrow>
              k = s3_key (property ev ''Runtime'') (property ev ''Architecture'')
                    (property ev ''PackageName''))"
proof (cases "missing_props (event_properties ev) = [] \<and>
              property ev ''PackageName'' \<in> set SUPPORTED_PACKAGES")
  case False
  with assms have "w' = w"
    by (auto simp: build_layer_def Let_def split: if_splits)
  then show ?thesis by simp
next
  case True
  let ?n = "property ev ''PackageName''" and ?r = "property ev ''Runtime''"
  from True have ne: "?n \<noteq> []" "?r \<noteq> []"
    by (simp_all add: missing_props_empty not_falsy)
  obtain rv w1 where g: "get_latest_package_version env ?n w = (rv, w1)"
    by (cases "get_latest_package_version env ?n w")
  note c1 = get_latest_world [OF g]
  show ?thesis
  proof (cases rv)
    case (Inl e)
    with assms True g have "w' = w1"
      by (auto simp: build_layer_def Let_def)
    with c1 show ?thesis by simp
  next
    case (Inr v)
    with g have v: "v \<noteq> []"
      using get_latest_version_nonempty by blast
    obtain rc w2 where c: "create_layer_package env ?n v ?r w1 = (rc, w2)"
      by (cases "create_layer_package env ?n v ?r w1")
    note c2 = create_layer_package_calls [OF c ne(1) v ne(2)]
    show ?thesis
    proof (cases rc)
      case (Inl e)
      with assms True g Inr c have "w' = w2"
        by (auto simp: build_layer_def Let_def)
      with c1 c2 show ?thesis by simp
    next
      case z: (Inr z)
      obtain ru w3 where u: "upload_layer env z (property ev ''BucketName'')
          (s3_key ?r (property ev ''Architecture'') ?n) w2 = (ru, w3)"
        by (cases "upload_layer env z (property ev ''BucketName'')
          (s3_key ?r (property ev ''Architecture'') ?n) w2")
      from assms True g Inr c z u have "w' = w3"
        by (auto simp: build_layer_def Let_def split: sum.splits)
      with c1 c2 upload_layer_world [OF u] show ?thesis by simp
    qed
  qed
qed

lemma example_current_runtime: "current_runtime example_runtime = ''python3.12''"
  by (simp add: current_runtime_def example_runtime_def str_nat.simps digit_char_def)

subsection \<open>Runs of the examples, and the handler's two outcomes\<close>

lemma example_run:
  "lambda_handler_create example_event example_env example_world =
     \<lparr>create_returned =
        \<lparr>S3Location = ''s3://my-bucket/python312-arm64-aws-lambda-powertools.zip'',
         S3Bucket = ''my-bucket'',
         S3Key = ''python312-arm64-aws-lambda-powertools.zip'',
         PackageName = ''aws-lambda-powertools'',
         PackageVersion = ''3.4.0'',
         PackageImportName = ''aws_lambda_powertools'',
         CompatibleRuntimes = ''['' @ quote @ ''python3.12'' @ quote @ '']'',
         CompatibleArchitectures = ''['' @ quote @ ''arm64'' @ quote @ '']''\<rparr>,
      create_sent =
        [\<lparr>responseStatus = ''SUCCESS'',
          responseData =
            \<lparr>S3Location = ''s3://my-bucket/python312-arm64-aws-lambda-powertools.zip'',
             S3Bucket = ''my-bucket'',
             S3Key = ''python312-arm64-aws-lambda-powertools.zip'',
             PackageName = ''aws-lambda-powertools'',
             PackageVersion = ''3.4.0'',
             PackageImportName = ''aws_lambda_powertools'',
             CompatibleRuntimes = ''['' @ quote @ ''python3.12'' @ quote @ '']'',
             CompatibleArchitectures = ''['' @ quote @ ''arm64'' @ quote @ '']''\<rparr>,
          reason = None\<rparr>],
      create_world =
        \<lparr>files = {''/tmp''},
         calls =
           [HttpGet ''https://pypi.org/pypi/aws-lambda-powertools/json'',
            PipInstall ''aws-lambda-powertools==3.4.0'' ''/tmp/site-packages'',
            UploadFile ''/tmp/aws-lambda-powertools-python3.12-3.4.0.zip'' ''my-bucket''
              ''python312-arm64-aws-lambda-powertools.zip'']\<rparr>\<rparr>"
  by code_simp

lemma example_upload_fails_run:
  "lambda_handler_create example_event example_env_upload_fails example_world =
     \<lparr>create_returned = create_response_data,
      create_sent =
        [\<lparr>responseStatus = ''FAILED'', responseData = create_response_data,
          reason = Some ''Lambda Layer creation failed: Access Denied''\<rparr>],
      create_world =
        \<lparr>files = {''/tmp''},
         calls =
           [HttpGet ''https://pypi.org/pypi/aws-lambda-powertools/json'',
            PipInstall ''aws-lambda-powertools==3.4.0'' ''/tmp/site-packages'',
            UploadFile ''/tmp/aws-lambda-powertools-python3.12-3.4.0.zip'' ''my-bucket''
              ''python312-arm64-aws-lambda-powertools.zip'']\<rparr>\<rparr>"
  by code_simp

lemma example_archive_fails_run:
  "lambda_handler_create example_event example_env_archive_fails example_world =
     \<lparr>create_returned = create_response_data,
      create_sent =
        [\<lparr>responseStatus = ''FAILED'', responseData = create_response_data,
          reason = Some (''Lambda Layer creation failed: Layer package creation failed: '' @
                         ''[Errno 28] No space left on device'')\<rparr>],
      create_world =
        \<lparr>files = {''/tmp'', ''/tmp/aws-lambda-powertools-python3.12-3.4.0.zip''},
         calls =
           [HttpGet ''https://pypi.org/pypi/aws-lambda-powertools/json'',
            PipInstall ''aws-lambda-powertools==3.4.0'' ''/tmp/site-packages'']\<rparr>\<rparr>"
  by code_simp

lemma sorted_supported:
  "str_join '', '' (sort SUPPORTED_PACKAGES) =
     ''aws-lambda-powertools, aws-xray-sdk, boto3, requests, urllib3''"
  by code_simp

lemma sublist_str_join: "k \<in> set xs \<Longrightarrow> sublist k (str_join sep xs)"
proof (induction sep xs rule: str_join.induct)
  case (1 sep)
  then show ?case by simp
next
  case (2 sep x)
  then show ?case by simp
next
  case (3 sep x y ys)
  show ?case
  proof (cases "k = x")
    case True
    have "prefix x (x @ sep @ str_join sep (y # ys))" by simp
    then show ?thesis
      using True by (simp add: prefix_imp_sublist)
  next
    case False
    with 3 have "sublist k (str_join sep (y # ys))" by simp
    then obtain ps ss where "str_join sep (y # ys) = ps @ k @ ss"
      by (auto simp: sublist_def)
    then have "str_join sep (x # y # ys) = (x @ sep @ ps) @ k @ ss"
      by simp
    then show ?thesis
      unfolding sublist_def by blast
  qed
qed

lemma falsy_iff: "falsy x \<longleftrightarrow> x = None \<or> x = Some []"
  by (cases x) auto

lemma missing_props_filter:
  "missing_props p =
     filter (\<lambda>k. p k = None \<or> p k = Some [])
       [''BucketName'', ''PackageName'', ''Runtime'', ''Architecture'']"
  by (simp add: missing_props_def required_props_def falsy_iff)

lemma example_other_run:
  "lambda_handler_create example_event_other_bucket example_env_newer_version example_world =
     \<lparr>create_returned =
        \<lparr>S3Location = ''s3://other-bucket/python312-arm64-aws-lambda-powertools.zip'',
         S3Bucket = ''other-bucket'',
         S3Key = ''python312-arm64-aws-lambda-powertools.zip'',
         PackageName = ''aws-lambda-powertools'',
         PackageVersion = ''3.5.1'',
         PackageImportName = ''aws_lambda_powertools'',
         CompatibleRuntimes = ''['' @ quote @ ''python3.12'' @ quote @ '']'',
         CompatibleArchitectures = ''['' @ quote @ ''arm64'' @ quote @ '']''\<rparr>,
      create_sent =
        [\<lparr>responseStatus = ''SUCCESS'',
          responseData =
            \<lparr>S3Location = ''s3://other-bucket/python312-arm64-aws-lambda-powertools.zip'',
             S3Bucket = ''other-bucket'',
             S3Key = ''python312-arm64-aws-lambda-powertools.zip'',
             PackageName = ''aws-lambda-powertools'',
             PackageVersion = ''3.5.1'',
             PackageImportName = ''aws_lambda_powertools'',
             CompatibleRuntimes = ''['' @ quote @ ''python3.12'' @ quote @ '']'',
             CompatibleArchitectures = ''['' @ quote @ ''arm64'' @ quote @ '']''\<rparr>,
          reason = None\<rparr>],
      create_world =
        \<lparr>files = {''/tmp''},
         calls =
           [HttpGet ''https://pypi.org/pypi/aws-lambda-powertools/json'',
            PipInstall ''aws-lambda-powertools==3.5.1'' ''/tmp/site-packages'',
            UploadFile ''/tmp/aws-lambda-powertools-python3.12-3.5.1.zip'' ''other-bucket''
              ''python312-arm64-aws-lambda-powertools.zip'']\<rparr>\<rparr>"
  by code_simp

lemma example_props:
  "event_properties example_event ''BucketName'' = Some ''my-bucket''"
  "event_properties example_event ''PackageName'' = Some ''aws-lambda-powertools''"
  "event_properties example_event ''Runtime'' = Some ''python3.12''"
  "event_properties example_event ''Architecture'' = Some ''arm64''"
  "RequestType example_event = Some ''Create''"
  by (simp_all add: example_event_def example_properties_def event_properties_def)

lemma example_other_props:
  "event_properties example_event_other_bucket ''BucketName'' = Some ''other-bucket''"
  "event_properties example_event_other_bucket ''PackageName'' = Some ''aws-lambda-powertools''"
  "event_properties example_event_other_bucket ''Runtime'' = Some ''python3.12''"
  "event_properties example_event_other_bucket ''Architecture'' = Some ''arm64''"
  "RequestType example_event_other_bucket = Some ''Update''"
  by (simp_all add: example_event_other_bucket_def example_properties_def event_properties_def)

lemma example_missing_none:
  "missing_props (event_properties example_event) = []"
  by (simp add: missing_props_filter example_props)

lemma example_supported:
  "''aws-lambda-powertools'' \<in> set SUPPORTED_PACKAGES"
  by (simp add: SUPPORTED_PACKAGES_def)

lemma example_version:
  "get_latest_package_version example_env ''aws-lambda-powertools'' example_world =
     (Inr ''3.4.0'',
      \<lparr>files = {''/tmp''},
       calls = [HttpGet ''https://pypi.org/pypi/aws-lambda-powertools/json'']\<rparr>)"
  by (simp add: get_latest_package_version_def pypi_version_def pypi_url_def example_env_def
      example_world_def log_call_def)

lemma handler_failure:
  "RequestType ev \<noteq> Some ''Delete'' \<Longrightarrow> build_layer ev env w = (Inl e, w') \<Longrightarrow>
     lambda_handler_create ev env w =
       \<lparr>create_returned = create_response_data,
        create_sent =
          [\<lparr>responseStatus = ''FAILED'', responseData = create_response_data,
            reason = Some (''Lambda Layer creation failed: '' @ str_exn e)\<rparr>],
        create_world = w'\<rparr>"
  by (simp add: lambda_handler_create_def)

lemma handler_success:
  "RequestType ev \<noteq> Some ''Delete'' \<Longrightarrow> build_layer ev env w = (Inr d, w') \<Longrightarrow>
     lambda_handler_create ev env w =
       \<lparr>create_returned = d,
        create_sent = [\<lparr>responseStatus = ''SUCCESS'', responseData = d, reason = None\<rparr>],
        create_world = w'\<rparr>"
  by (simp add: lambda_handler_create_def)

lemma handler_status_success:
  assumes "RequestType ev \<noteq> Some ''Delete''"
    and "map responseStatus (create_sent (lambda_handler_create ev env w)) = [''SUCCESS'']"
  shows "build_layer ev env w =
           (Inr (create_returned (lambda_handler_create ev env w)),
            create_world (lambda_handler_create ev env w))"
proof (cases "build_layer ev env w")
  case (Pair res w')
  show ?thesis
  proof (cases res)
    case (Inl e)
    with Pair assms show ?thesis
      by (simp add: handler_failure)
  next
    case (Inr d)
    with Pair assms show ?thesis
      by (simp add: handler_success)
  qed
qed

lemma handler_world:
  "create_world (lambda_handler_create ev env w) =
     (if RequestType ev = Some ''Delete'' then w else snd (build_layer ev env w))"
  by (cases "build_layer ev env w")
     (auto simp: lambda_handler_create_def Let_def split: sum.splits)

lemma handler_trace:
  assumes "calls (create_world (lambda_handler_create ev env w)) = calls w @ cs"
    and "UploadFile f b k \<in> set cs"
  shows "k = s3_key (property ev ''Runtime'') (property ev ''Architecture'')
               (property ev ''PackageName'')"
proof (cases "RequestType ev = Some ''Delete''")
  case True
  with assms show ?thesis
    by (simp add: handler_world)
next
  case False
  obtain res w' where b: "build_layer ev env w = (res, w')"
    by (cases "build_layer ev env w")
  from build_layer_trace [OF b] obtain cs' where
    c: "calls w' = calls w @ cs'" and
    u: "\<forall>f b k. UploadFile f b k \<in> set cs' \<longrightarrow>
          k = s3_key (property ev ''Runtime'') (property ev ''Architecture'')
                (property ev ''PackageName'')"
    by blast
  from assms(1) False b c have "cs = cs'"
    by (simp add: handler_world)
  with u assms(2) show ?thesis by blast
qed

lemma build_layer_success_calls:
  assumes "build_layer ev env w = (Inr d, w')"
  shows "calls w' =
           calls w @
             [HttpGet (pypi_url (property ev ''PackageName'')),
              PipInstall (property ev ''PackageName'' @ ''=='' @ PackageVersion d)
                site_packages_dir,
              UploadFile
                (zip_file_path (property ev ''PackageName'') (PackageVersion d)
                   (property ev ''Runtime''))
                (property ev ''BucketName'')
                (s3_key (property ev ''Runtime'') (property ev ''Architecture'')
                   (property ev ''PackageName''))] \<and>
         upload_file env
           (zip_file_path (property ev ''PackageName'') (PackageVersion d)
              (property ev ''Runtime''))
           (property ev ''BucketName'')
           (s3_key (property ev ''Runtime'') (property ev ''Architecture'')
              (property ev ''PackageName'')) = Returns \<and>
         S3Key d = s3_key (property ev ''Runtime'') (property ev ''Architecture'')
                     (property ev ''PackageName'') \<and>
         S3Bucket d = property ev ''BucketName'' \<and>
         S3Location d \<noteq> []"
proof -
  let ?n = "property ev ''PackageName''" and ?r = "property ev ''Runtime''"
  let ?b = "property ev ''BucketName''"
  let ?k = "s3_key ?r (property ev ''Architecture'') ?n"
  from build_layer_success [OF assms] obtain v w1 w2 where
    m: "missing_props (event_properties ev) = []" and
    g: "get_latest_package_version env ?n w = (Inr v, w1)" and
    c: "create_layer_package env ?n v ?r w1 = (Inr (zip_file_path ?n v ?r), w2)" and
    u: "upload_layer env (zip_file_path ?n v ?r) ?b ?k w2 = (Inr (), w')" and
    d: "PackageVersion d = v" "S3Key d = ?k" "S3Bucket d = ?b" "S3Location d \<noteq> []"
    by (auto simp: create_response_data_def)
  from m have ne: "?n \<noteq> []" "?r \<noteq> []"
    by (simp_all add: missing_props_empty not_falsy)
  from g have v: "v \<noteq> []"
    by (rule get_latest_version_nonempty)
  have "calls w1 = calls w @ [HttpGet (pypi_url ?n)]"
    using get_latest_world [OF g] by simp
  moreover have "calls w2 = calls w1 @ [PipInstall (?n @ ''=='' @ v) site_packages_dir]"
    by (rule create_layer_package_calls [OF c ne(1) v ne(2)])
  moreover have "calls w' = calls w2 @ [UploadFile (zip_file_path ?n v ?r) ?b ?k]"
    using upload_layer_world [OF u] by simp
  moreover have "upload_file env (zip_file_path ?n v ?r) ?b ?k = Returns"
    using u by (simp add: upload_layer_result)
  ultimately show ?thesis
    using d by simp
qed

subsection \<open>The archive and the staging directories\<close>

lemma staging_dirs_paths:
  "site_packages_dir = ''/tmp/site-packages''" "python_dir = ''/tmp/python''"
  by (simp_all add: site_packages_dir_def python_dir_def temp_root_def os_path_join_def)

lemma create_layer_package_failure_zip:
  assumes c: "create_layer_package env n v r w = (Inl x, w2)"
    and n: "n \<in> set SUPPORTED_PACKAGES" and v: "v \<noteq> []" and r: "r \<noteq> []"
    and ar: "\<forall>m. shutil_make_archive env (splitext_root (zip_file_path n v r)) temp_root ''python''
               \<noteq> RaisesLeaving m"
  shows "zip_file_path n v r \<notin> files w2"
proof -
  obtain res0 w0 where s: "layer_package_steps env n v r w = (res0, w0)"
    by (cases "layer_package_steps env n v r w")
  from n have "n \<noteq> []"
    using supported_name by blast
  with c s v r obtain e where "res0 = Inl e" and w2: "w2 = remove_dirs temp_dirs w0"
    by (auto simp: create_layer_package_def split: sum.splits)
  with s have "layer_package_steps env n v r w = (Inl e, w0)"
    by simp
  from steps_zip_absent [OF this n v ar] have "zip_file_path n v r \<notin> files w0" .
  then show ?thesis
    using files_remove_dirs_mem w2 by blast
qed

lemma build_layer_world:
  assumes "missing_props (event_properties ev) = []"
    and "property ev ''PackageName'' \<in> set SUPPORTED_PACKAGES"
    and "get_latest_package_version env (property ev ''PackageName'') w = (Inr v, w1)"
    and "create_layer_package env (property ev ''PackageName'') v (property ev ''Runtime'') w1
           = (rc, w2)"
  shows "snd (build_layer ev env w) =
           (case rc of
              Inl e \<Rightarrow> w2
            | Inr z \<Rightarrow>
                snd (upload_layer env z (property ev ''BucketName'')
                       (s3_key (property ev ''Runtime'') (property ev ''Architecture'')
                          (property ev ''PackageName'')) w2))"
  using assms
  by (simp add: build_layer_def Let_def split: sum.splits prod.splits)

section \<open>The deployment validator: verdict, alias, payload\<close>

text \<open>
  Claim C1. On a build event (\<^verbatim>\<open>RequestType\<close> is not \<^verbatim>\<open>Delete\<close>) where the import
  raises nothing but possibly \<^verbatim>\<open>ImportError\<close>, the reported \<^verbatim>\<open>Status\<close> is
  \<^verbatim>\<open>SUCCESS\<close> exactly when all four comparisons hold: the package status is
  \<^verbatim>\<open>INSTALLED\<close> (the import returned a module), the installed version equals the target
  \<^verbatim>\<open>PackageVersion\<close>, the current runtime equals the target \<^verbatim>\<open>Runtime\<close>, and the
  canonical current architecture equals the target \<^verbatim>\<open>Architecture\<close>. As soon as one of
  the four fails, whatever the other three are, the \<^verbatim>\<open>Status\<close> is \<^verbatim>\<open>FAILED\<close>. The
  status signalled to the provisioning system is the reported one.
\<close>

theorem validator_verdict:
  assumes "RequestType ev \<noteq> Some ''Delete''"
    and "import_package env (dict_get (event_properties ev) ''PackageImportName'' ''N/A'')
           = Inr (installed_version, package_status)"
  shows "(Status (test_returned (lambda_handler_test ev env)) = ''SUCCESS'' \<longleftrightarrow>
            package_status = ''INSTALLED'' \<and>
            installed_version = dict_get (event_properties ev) ''PackageVersion'' ''N/A'' \<and>
            current_runtime env = dict_get (event_properties ev) ''Runtime'' ''N/A'' \<and>
            current_arch env = dict_get (event_properties ev) ''Architecture'' ''N/A'') \<and>
         (package_status \<noteq> ''INSTALLED'' \<or>
            installed_version \<noteq> dict_get (event_properties ev) ''PackageVersion'' ''N/A'' \<or>
            current_runtime env \<noteq> dict_get (event_properties ev) ''Runtime'' ''N/A'' \<or>
            current_arch env \<noteq> dict_get (event_properties ev) ''Architecture'' ''N/A'' \<longrightarrow>
          Status (test_returned (lambda_handler_test ev env)) = ''FAILED'') \<and>
         (package_status = ''INSTALLED'' \<longleftrightarrow>
            (\<exists>v. import_module env (dict_get (event_properties ev) ''PackageImportName'' ''N/A'')
                   = Imported v)) \<and>
         map responseStatus (test_sent (lambda_handler_test ev env))
           = [Status (test_returned (lambda_handler_test ev env))]"
  using assms
  by (auto simp: lambda_handler_test_def overall_status_def import_package_def Let_def
      split: import_outcome.splits)

theorem validator_verdict_witness:
  "RequestType example_test_event \<noteq> Some ''Delete'' \<and>
   import_package example_runtime
     (dict_get (event_properties example_test_event) ''PackageImportName'' ''N/A'')
     = Inr (''3.4.0'', ''INSTALLED'') \<and>
   Status (test_returned (lambda_handler_test example_test_event example_runtime)) = ''SUCCESS'' \<and>
   map responseStatus (test_sent (lambda_handler_test example_test_event example_runtime))
     = [''SUCCESS'']"
proof -
  have h1: "RequestType example_test_event \<noteq> Some ''Delete''"
    by (simp add: example_test_event_def)
  have h2: "import_package example_runtime
     (dict_get (event_properties example_test_event) ''PackageImportName'' ''N/A'')
     = Inr (''3.4.0'', ''INSTALLED'')"
    by (simp add: import_package_def example_runtime_def example_test_event_def
        event_properties_def dict_get_def)
  have p: "dict_get (event_properties example_test_event) ''PackageVersion'' ''N/A'' = ''3.4.0''"
     "dict_get (event_properties example_test_event) ''Runtime'' ''N/A'' = ''python3.12''"
     "dict_get (event_properties example_test_event) ''Architecture'' ''N/A'' = ''arm64''"
    by (simp_all add: example_test_event_def event_properties_def dict_get_def)
  have a: "current_arch example_runtime = ''arm64''"
    by (simp add: current_arch_def example_runtime_def)
  from validator_verdict [OF h1 h2] h1 h2 show ?thesis
    by (simp add: p a example_current_runtime)
qed

text \<open>
  Claim C8. A machine that reports \<^verbatim>\<open>aarch64\<close> is compared as \<^verbatim>\<open>arm64\<close>; any other
  machine string is compared as it is. So, the other three axes matching, the verdict is
  \<^verbatim>\<open>SUCCESS\<close> exactly when the target \<^verbatim>\<open>Architecture\<close> equals \<^verbatim>\<open>arm64\<close> on an
  \<^verbatim>\<open>aarch64\<close> machine, and equals the raw machine string on any other machine.
\<close>

theorem architecture_alias:
  "(platform_machine env = ''aarch64'' \<longrightarrow> current_arch env = ''arm64'') \<and>
   (platform_machine env \<noteq> ''aarch64'' \<longrightarrow> current_arch env = platform_machine env) \<and>
   (RequestType ev \<noteq> Some ''Delete'' \<and>
    import_package env (dict_get (event_properties ev) ''PackageImportName'' ''N/A'')
      = Inr (dict_get (event_properties ev) ''PackageVersion'' ''N/A'', ''INSTALLED'') \<and>
    current_runtime env = dict_get (event_properties ev) ''Runtime'' ''N/A'' \<longrightarrow>
      (Status (test_returned (lambda_handler_test ev env)) = ''SUCCESS'' \<longleftrightarrow>
         (if platform_machine env = ''aarch64'' then ''arm64'' else platform_machine env)
           = dict_get (event_properties ev) ''Architecture'' ''N/A''))"
  by (auto simp: lambda_handler_test_def overall_status_def current_arch_def Let_def)

theorem architecture_alias_witness:
  "platform_machine example_runtime = ''aarch64'' \<and>
   dict_get (event_properties example_test_event) ''Architecture'' ''N/A'' = ''arm64'' \<and>
   current_arch example_runtime = ''arm64'' \<and>
   RequestType example_test_event \<noteq> Some ''Delete'' \<and>
   import_package example_runtime
     (dict_get (event_properties example_test_event) ''PackageImportName'' ''N/A'')
     = Inr (dict_get (event_properties example_test_event) ''PackageVersion'' ''N/A'', ''INSTALLED'') \<and>
   current_runtime example_runtime = dict_get (event_properties example_test_event) ''Runtime'' ''N/A'' \<and>
   Status (test_returned (lambda_handler_test example_test_event example_runtime)) = ''SUCCESS''"
proof -
  have m: "platform_machine example_runtime = ''aarch64''"
    by (simp add: example_runtime_def)
  have p: "dict_get (event_properties example_test_event) ''PackageVersion'' ''N/A'' = ''3.4.0''"
     "dict_get (event_properties example_test_event) ''Runtime'' ''N/A'' = ''python3.12''"
     "dict_get (event_properties example_test_event) ''Architecture'' ''N/A'' = ''arm64''"
     "dict_get (event_properties example_test_event) ''PackageImportName'' ''N/A''
        = ''aws_lambda_powertools''"
    by (simp_all add: example_test_event_def event_properties_def dict_get_def)
  have h1: "RequestType example_test_event \<noteq> Some ''Delete''"
    by (simp add: example_test_event_def)
  have h2: "import_package example_runtime ''aws_lambda_powertools'' = Inr (''3.4.0'', ''INSTALLED'')"
    by (simp add: import_package_def example_runtime_def)
  from architecture_alias [of example_runtime example_test_event] show ?thesis
    by (simp add: m p h1 h2 example_current_runtime)
qed

text \<open>
  Claim C10. Whatever the event and the runtime, the fields \<^verbatim>\<open>TestPackage\<close>,
  \<^verbatim>\<open>TestPackageVersion\<close>, \<^verbatim>\<open>TestRuntime\<close> and \<^verbatim>\<open>TestArchitecture\<close> of the returned
  dictionary are the empty string, and the payload signalled is the returned dictionary:
  the handler only ever sets \<^verbatim>\<open>Status\<close> and \<^verbatim>\<open>Message\<close>.
\<close>

theorem validator_test_fields_empty:
  "TestPackage (test_returned (lambda_handler_test ev env)) = '''' \<and>
   TestPackageVersion (test_returned (lambda_handler_test ev env)) = '''' \<and>
   TestRuntime (test_returned (lambda_handler_test ev env)) = '''' \<and>
   TestArchitecture (test_returned (lambda_handler_test ev env)) = '''' \<and>
   map responseData (test_sent (lambda_handler_test ev env))
     = [test_returned (lambda_handler_test ev env)]"
  by (auto simp: lambda_handler_test_def test_response_data_def Let_def
      split: sum.splits prod.splits)

theorem validator_test_fields_empty_witness:
  "test_returned (lambda_handler_test example_test_event example_runtime) =
     \<lparr>Status = ''SUCCESS'',
      Message = ''Installation: Target: aws-lambda-powertools, Current: INSTALLED. '' @
                ''Version: Target: 3.4.0, Current: 3.4.0. '' @
                ''Runtime: Target: python3.12, Current: python3.12. '' @
                ''Architecture: Target: arm64, Current: arm64. '',
      TestPackage = '''', TestPackageVersion = '''', TestRuntime = '''',
      TestArchitecture = ''''\<rparr>"
proof -
  have "Status (test_returned (lambda_handler_test example_test_event example_runtime)) = ''SUCCESS''"
    and "Message (test_returned (lambda_handler_test example_test_event example_runtime)) =
      ''Installation: Target: aws-lambda-powertools, Current: INSTALLED. '' @
                ''Version: Target: 3.4.0, Current: 3.4.0. '' @
                ''Runtime: Target: python3.12, Current: python3.12. '' @
                ''Architecture: Target: arm64, Current: arm64. ''"
    by (simp_all add: lambda_handler_test_def example_test_event_def example_runtime_def
        event_properties_def dict_get_def import_package_def overall_status_def
        test_message_def current_arch_def current_runtime_def str_nat.simps digit_char_def
        test_response_data_def Let_def)
  with validator_test_fields_empty [of example_test_event example_runtime] show ?thesis
    by (cases "test_returned (lambda_handler_test example_test_event example_runtime)") simp
qed

section \<open>The build orchestrator: outcomes, names and keys\<close>

text \<open>
  Claim C9. On an event whose \<^verbatim>\<open>RequestType\<close> is \<^verbatim>\<open>Delete\<close>, each entry point returns
  its all-empty default dictionary and signals \<^verbatim>\<open>SUCCESS\<close> with that dictionary, once.
  The orchestrator leaves the world as it found it (no registry request, no installation,
  no upload, no file touched), and the validator imports nothing.
\<close>

theorem delete_short_circuits:
  assumes "RequestType ev = Some ''Delete''"
  shows "lambda_handler_create ev env w =
           \<lparr>create_returned =
              \<lparr>S3Location = '''', S3Bucket = '''', S3Key = '''', PackageName = '''',
               PackageVersion = '''', PackageImportName = '''', CompatibleRuntimes = '''',
               CompatibleArchitectures = ''''\<rparr>,
            create_sent =
              [\<lparr>responseStatus = ''SUCCESS'',
                responseData =
                  \<lparr>S3Location = '''', S3Bucket = '''', S3Key = '''', PackageName = '''',
                   PackageVersion = '''', PackageImportName = '''', CompatibleRuntimes = '''',
                   CompatibleArchitectures = ''''\<rparr>,
                reason = None\<rparr>],
            create_world = w\<rparr> \<and>
         lambda_handler_test ev renv =
           \<lparr>test_returned =
              \<lparr>Status = '''', Message = '''', TestPackage = '''', TestPackageVersion = '''',
               TestRuntime = '''', TestArchitecture = ''''\<rparr>,
            test_sent =
              [\<lparr>responseStatus = ''SUCCESS'',
                responseData =
                  \<lparr>Status = '''', Message = '''', TestPackage = '''',
                   TestPackageVersion = '''', TestRuntime = '''', TestArchitecture = ''''\<rparr>,
                reason = None\<rparr>],
            test_imports = []\<rparr>"
  using assms
  by (simp add: lambda_handler_create_def lambda_handler_test_def create_response_data_def
      test_response_data_def SUCCESS_def Let_def)

theorem delete_short_circuits_witness:
  "RequestType example_delete_event = Some ''Delete'' \<and>
   create_world (lambda_handler_create example_delete_event example_env example_world)
     = example_world \<and>
   map responseStatus
     (create_sent (lambda_handler_create example_delete_event example_env example_world))
     = [''SUCCESS''] \<and>
   S3Key (create_returned (lambda_handler_create example_delete_event example_env example_world))
     = '''' \<and>
   test_imports (lambda_handler_test example_delete_event example_runtime) = [] \<and>
   map responseStatus (test_sent (lambda_handler_test example_delete_event example_runtime))
     = [''SUCCESS'']"
proof -
  have h: "RequestType example_delete_event = Some ''Delete''"
    by (simp add: example_delete_event_def)
  from delete_short_circuits [OF h, of example_env example_world example_runtime] h
  show ?thesis by simp
qed

text \<open>
  Claim C6. The import name is a function of the package name alone: the package name
  with every hyphen replaced by an underscore. \<^verbatim>\<open>aws-lambda-powertools\<close> becomes
  \<^verbatim>\<open>aws_lambda_powertools\<close>, a name without a hyphen is unchanged, and the
  \<^verbatim>\<open>PackageImportName\<close> of a result is the import name of its \<^verbatim>\<open>PackageName\<close>.
\<close>

theorem import_name_replaces_hyphens:
  "package_import_name n = map (\<lambda>c. if c = CHR ''-'' then CHR ''_'' else c) n \<and>
   package_import_name ''aws-lambda-powertools'' = ''aws_lambda_powertools'' \<and>
   (CHR ''-'' \<notin> set n \<longrightarrow> package_import_name n = n) \<and>
   (build_layer ev env w = (Inr d, w') \<longrightarrow>
      PackageImportName d = package_import_name (PackageName d))"
proof -
  have m: "\<And>s. package_import_name s = map (\<lambda>c. if c = CHR ''-'' then CHR ''_'' else c) s"
    by (simp add: package_import_name_def str_replace_single)
  have "CHR ''-'' \<notin> set n \<Longrightarrow> map (\<lambda>c. if c = CHR ''-'' then CHR ''_'' else c) n = n"
    by (induction n) auto
  moreover have "build_layer ev env w = (Inr d, w') \<Longrightarrow>
      PackageImportName d = package_import_name (PackageName d)"
    by (drule build_layer_success) (auto simp: create_response_data_def)
  ultimately show ?thesis
    using m by simp
qed

theorem import_name_replaces_hyphens_witness:
  "CHR ''-'' \<notin> set ''boto3'' \<and> package_import_name ''boto3'' = ''boto3'' \<and>
   package_import_name ''aws-xray-sdk'' = ''aws_xray_sdk''"
  using import_name_replaces_hyphens [of "''boto3''"]
    import_name_replaces_hyphens [of "''aws-xray-sdk''"]
  by simp

text \<open>
  Claim C7. On a build event the required properties are checked first: when one of
  \<^verbatim>\<open>BucketName\<close>, \<^verbatim>\<open>PackageName\<close>, \<^verbatim>\<open>Runtime\<close>, \<^verbatim>\<open>Architecture\<close> is absent or
  empty, the run fails with one error that lists every missing name (each of them occurs
  in the message), whatever the package name is. Only when none is missing is the package
  name looked up in the supported list, and a name outside it fails with an error that
  lists the whole supported list, sorted. In both cases the world is left as it was found.
\<close>

theorem validation_order:
  assumes "RequestType ev \<noteq> Some ''Delete''"
  shows "(missing_props (event_properties ev) \<noteq> [] \<longrightarrow>
            lambda_handler_create ev env w =
              \<lparr>create_returned = create_response_data,
               create_sent =
                 [\<lparr>responseStatus = ''FAILED'', responseData = create_response_data,
                   reason = Some (''Lambda Layer creation failed: Missing required properties: '' @
                                  str_join '', '' (missing_props (event_properties ev)))\<rparr>],
               create_world = w\<rparr>) \<and>
         (missing_props (event_properties ev) = [] \<and>
          property ev ''PackageName'' \<notin> set SUPPORTED_PACKAGES \<longrightarrow>
            lambda_handler_create ev env w =
              \<lparr>create_returned = create_response_data,
               create_sent =
                 [\<lparr>responseStatus = ''FAILED'', responseData = create_response_data,
                   reason = Some (''Lambda Layer creation failed: Package '' @ quote @
                                  property ev ''PackageName'' @ quote @
                                  '' is not supported. Supported packages: '' @
                                  ''aws-lambda-powertools, aws-xray-sdk, boto3, requests, urllib3'' @
                                  [CHR 0x0A])\<rparr>],
               create_world = w\<rparr>) \<and>
         missing_props (event_properties ev) =
           filter (\<lambda>k. event_properties ev k = None \<or> event_properties ev k = Some '''')
             [''BucketName'', ''PackageName'', ''Runtime'', ''Architecture''] \<and>
         (\<forall>k \<in> set (missing_props (event_properties ev)).
            sublist k (str_join '', '' (missing_props (event_properties ev)))) \<and>
         (\<forall>s \<in> set SUPPORTED_PACKAGES.
            sublist s ''aws-lambda-powertools, aws-xray-sdk, boto3, requests, urllib3'')"
proof -
  have a: "missing_props (event_properties ev) \<noteq> [] \<Longrightarrow>
      build_layer ev env w =
        (Inl (ValueError (''Missing required properties: '' @
               str_join '', '' (missing_props (event_properties ev)))), w)"
    by (simp add: build_layer_def Let_def)
  have b: "missing_props (event_properties ev) = [] \<Longrightarrow>
      property ev ''PackageName'' \<notin> set SUPPORTED_PACKAGES \<Longrightarrow>
      build_layer ev env w =
        (Inl (ValueError (''Package '' @ quote @ property ev ''PackageName'' @ quote @
                '' is not supported. Supported packages: '' @
                ''aws-lambda-powertools, aws-xray-sdk, boto3, requests, urllib3'' @
                [CHR 0x0A])), w)"
    unfolding sorted_supported [symmetric]
    by (simp add: build_layer_def Let_def)
  have c: "\<forall>s \<in> set SUPPORTED_PACKAGES.
            sublist s ''aws-lambda-powertools, aws-xray-sdk, boto3, requests, urllib3''"
  proof
    fix s assume "s \<in> set SUPPORTED_PACKAGES"
    then have "s \<in> set (sort SUPPORTED_PACKAGES)" by simp
    then have "sublist s (str_join '', '' (sort SUPPORTED_PACKAGES))"
      by (rule sublist_str_join)
    then show "sublist s ''aws-lambda-powertools, aws-xray-sdk, boto3, requests, urllib3''"
      by (simp only: sorted_supported)
  qed
  have m: "missing_props (event_properties ev) =
           filter (\<lambda>k. event_properties ev k = None \<or> event_properties ev k = Some [])
             [''BucketName'', ''PackageName'', ''Runtime'', ''Architecture'']"
    by (rule missing_props_filter)
  have k: "\<forall>k \<in> set (missing_props (event_properties ev)).
            sublist k (str_join '', '' (missing_props (event_properties ev)))"
    by (blast intro: sublist_str_join)
  have A: "missing_props (event_properties ev) \<noteq> [] \<longrightarrow>
            lambda_handler_create ev env w =
              \<lparr>create_returned = create_response_data,
               create_sent =
                 [\<lparr>responseStatus = ''FAILED'', responseData = create_response_data,
                   reason = Some (''Lambda Layer creation failed: Missing required properties: '' @
                                  str_join '', '' (missing_props (event_properties ev)))\<rparr>],
               create_world = w\<rparr>"
  proof
    assume "missing_props (event_properties ev) \<noteq> []"
    from handler_failure [OF assms a [OF this]] show "lambda_handler_create ev env w =
              \<lparr>create_returned = create_response_data,
               create_sent =
                 [\<lparr>responseStatus = ''FAILED'', responseData = create_response_data,
                   reason = Some (''Lambda Layer creation failed: Missing required properties: '' @
                                  str_join '', '' (missing_props (event_properties ev)))\<rparr>],
               create_world = w\<rparr>"
      by simp
  qed
  have B: "missing_props (event_properties ev) = [] \<and>
          property ev ''PackageName'' \<notin> set SUPPORTED_PACKAGES \<longrightarrow>
            lambda_handler_create ev env w =
              \<lparr>create_returned = create_response_data,
               create_sent =
                 [\<lparr>responseStatus = ''FAILED'', responseData = create_response_data,
                   reason = Some (''Lambda Layer creation failed: Package '' @ quote @
                                  property ev ''PackageName'' @ quote @
                                  '' is not supported. Supported packages: '' @
                                  ''aws-lambda-powertools, aws-xray-sdk, boto3, requests, urllib3'' @
                                  [CHR 0x0A])\<rparr>],
               create_world = w\<rparr>"
  proof
    assume h: "missing_props (event_properties ev) = [] \<and>
          property ev ''PackageName'' \<notin> set SUPPORTED_PACKAGES"
    from handler_failure [OF assms b] h show "lambda_handler_create ev env w =
              \<lparr>create_returned = create_response_data,
               create_sent =
                 [\<lparr>responseStatus = ''FAILED'', responseData = create_response_data,
                   reason = Some (''Lambda Layer creation failed: Package '' @ quote @
                                  property ev ''PackageName'' @ quote @
                                  '' is not supported. Supported packages: '' @
                                  ''aws-lambda-powertools, aws-xray-sdk, boto3, requests, urllib3'' @
                                  [CHR 0x0A])\<rparr>],
               create_world = w\<rparr>"
      by simp
  qed
  show ?thesis
    by (rule conjI [OF A conjI [OF B conjI [OF m conjI [OF k c]]]])
qed

theorem validation_order_witness:
  "RequestType example_missing_event \<noteq> Some ''Delete'' \<and>
   missing_props (event_properties example_missing_event) = [''BucketName'', ''Architecture''] \<and>
   map reason (create_sent (lambda_handler_create example_missing_event example_env example_world))
     = [Some ''Lambda Layer creation failed: Missing required properties: BucketName, Architecture''] \<and>
   create_world (lambda_handler_create example_missing_event example_env example_world)
     = example_world \<and>
   RequestType example_unsupported_event \<noteq> Some ''Delete'' \<and>
   missing_props (event_properties example_unsupported_event) = [] \<and>
   property example_unsupported_event ''PackageName'' = ''numpy'' \<and>
   ''numpy'' \<notin> set SUPPORTED_PACKAGES \<and>
   map reason (create_sent (lambda_handler_create example_unsupported_event example_env example_world))
     = [Some (''Lambda Layer creation failed: Package '' @ quote @ ''numpy'' @ quote @
              '' is not supported. Supported packages: '' @
              ''aws-lambda-powertools, aws-xray-sdk, boto3, requests, urllib3'' @ [CHR 0x0A])] \<and>
   create_world (lambda_handler_create example_unsupported_event example_env example_world)
     = example_world"
proof -
  have m1: "RequestType example_missing_event \<noteq> Some ''Delete''"
    by (simp add: example_missing_event_def)
  have m2: "missing_props (event_properties example_missing_event)
              = [''BucketName'', ''Architecture'']"
    by (simp add: missing_props_filter example_missing_event_def event_properties_def)
  have u1: "RequestType example_unsupported_event \<noteq> Some ''Delete''"
    by (simp add: example_unsupported_event_def)
  have u2: "missing_props (event_properties example_unsupported_event) = []"
    by (simp add: missing_props_filter example_unsupported_event_def event_properties_def
        example_properties_def)
  have u3: "property example_unsupported_event ''PackageName'' = ''numpy''"
    by (simp add: example_unsupported_event_def event_properties_def)
  have u4: "''numpy'' \<notin> set SUPPORTED_PACKAGES"
    by (simp add: SUPPORTED_PACKAGES_def)
  from validation_order [OF m1, of example_env example_world]
    validation_order [OF u1, of example_env example_world]
  show ?thesis
    using m1 m2 u1 u2 u3 u4 by simp
qed

text \<open>
  Claim C2. On a build event, whatever the body of the handler's \<^verbatim>\<open>try\<close> raises, the
  handler signals \<^verbatim>\<open>FAILED\<close>, with the reason built from the exception, and the
  dictionary it signals and returns has every field empty. A missing property, an
  unsupported package, a failed version resolution, a failed build and a failed upload
  each lead there. The dictionary is populated only on the path where the upload was
  made and \<^verbatim>\<open>upload_file\<close> returned, and then \<^verbatim>\<open>SUCCESS\<close> is signalled.
\<close>

theorem failure_reports_empty_result:
  assumes "RequestType ev \<noteq> Some ''Delete''"
  shows "(fst (build_layer ev env w) = Inl e \<longrightarrow>
            create_returned (lambda_handler_create ev env w) = create_response_data \<and>
            create_sent (lambda_handler_create ev env w) =
              [\<lparr>responseStatus = ''FAILED'', responseData = create_response_data,
                reason = Some (''Lambda Layer creation failed: '' @ str_exn e)\<rparr>]) \<and>
         (missing_props (event_properties ev) \<noteq> [] \<or>
          property ev ''PackageName'' \<notin> set SUPPORTED_PACKAGES \<or>
          (\<exists>x w1. get_latest_package_version env (property ev ''PackageName'') w = (Inl x, w1)) \<or>
          (\<exists>v w1 x w2.
             get_latest_package_version env (property ev ''PackageName'') w = (Inr v, w1) \<and>
             create_layer_package env (property ev ''PackageName'') v (property ev ''Runtime'') w1
               = (Inl x, w2)) \<or>
          (\<exists>v w1.
             get_latest_package_version env (property ev ''PackageName'') w = (Inr v, w1) \<and>
             upload_file env
               (zip_file_path (property ev ''PackageName'') v (property ev ''Runtime''))
               (property ev ''BucketName'')
               (s3_key (property ev ''Runtime'') (property ev ''Architecture'')
                  (property ev ''PackageName'')) \<noteq> Returns) \<longrightarrow>
            map responseStatus (create_sent (lambda_handler_create ev env w)) = [''FAILED'']) \<and>
         (map responseStatus (create_sent (lambda_handler_create ev env w)) = [''FAILED''] \<longrightarrow>
            create_returned (lambda_handler_create ev env w) =
              \<lparr>S3Location = '''', S3Bucket = '''', S3Key = '''', PackageName = '''',
               PackageVersion = '''', PackageImportName = '''', CompatibleRuntimes = '''',
               CompatibleArchitectures = ''''\<rparr> \<and>
            map responseData (create_sent (lambda_handler_create ev env w)) =
              [\<lparr>S3Location = '''', S3Bucket = '''', S3Key = '''', PackageName = '''',
                PackageVersion = '''', PackageImportName = '''', CompatibleRuntimes = '''',
                CompatibleArchitectures = ''''\<rparr>]) \<and>
         (create_returned (lambda_handler_create ev env w) \<noteq> create_response_data \<longrightarrow>
            map responseStatus (create_sent (lambda_handler_create ev env w)) = [''SUCCESS''] \<and>
            (\<exists>v. calls (create_world (lambda_handler_create ev env w)) =
                   calls w @
                     [HttpGet (pypi_url (property ev ''PackageName'')),
                      PipInstall (property ev ''PackageName'' @ ''=='' @ v) site_packages_dir,
                      UploadFile
                        (zip_file_path (property ev ''PackageName'') v (property ev ''Runtime''))
                        (property ev ''BucketName'')
                        (s3_key (property ev ''Runtime'') (property ev ''Architecture'')
                           (property ev ''PackageName''))] \<and>
                 upload_file env
                   (zip_file_path (property ev ''PackageName'') v (property ev ''Runtime''))
                   (property ev ''BucketName'')
                   (s3_key (property ev ''Runtime'') (property ev ''Architecture'')
                      (property ev ''PackageName'')) = Returns))"
proof -
  let ?r = "lambda_handler_create ev env w"
  obtain res w' where b: "build_layer ev env w = (res, w')"
    by (cases "build_layer ev env w")
  show ?thesis
  proof (cases res)
    case (Inl x)
    note f = handler_failure [OF assms b [unfolded Inl]]
    have 1: "fst (build_layer ev env w) = Inl e \<longrightarrow>
            create_returned ?r = create_response_data \<and>
            create_sent ?r =
              [\<lparr>responseStatus = ''FAILED'', responseData = create_response_data,
                reason = Some (''Lambda Layer creation failed: '' @ str_exn e)\<rparr>]"
      using b Inl f by auto
    have 2: "map responseStatus (create_sent ?r) = [''FAILED'']"
      by (simp add: f)
    have 3: "create_returned ?r =
              \<lparr>S3Location = '''', S3Bucket = '''', S3Key = '''', PackageName = '''',
               PackageVersion = '''', PackageImportName = '''', CompatibleRuntimes = '''',
               CompatibleArchitectures = ''''\<rparr> \<and>
            map responseData (create_sent ?r) =
              [\<lparr>S3Location = '''', S3Bucket = '''', S3Key = '''', PackageName = '''',
                PackageVersion = '''', PackageImportName = '''', CompatibleRuntimes = '''',
                CompatibleArchitectures = ''''\<rparr>]"
      by (simp add: f create_response_data_def)
    have 4: "create_returned ?r = create_response_data"
      by (simp add: f)
    from 1 2 3 4 show ?thesis by blast
  next
    case (Inr d)
    note s = handler_success [OF assms b [unfolded Inr]]
    note k = build_layer_success [OF b [unfolded Inr]]
    note c = build_layer_success_calls [OF b [unfolded Inr]]
    have 1: "fst (build_layer ev env w) \<noteq> Inl e"
      using b Inr by simp
    have 2: "map responseStatus (create_sent ?r) \<noteq> [''FAILED'']"
      by (simp add: s)
    have 3: "\<not> (missing_props (event_properties ev) \<noteq> [] \<or>
          property ev ''PackageName'' \<notin> set SUPPORTED_PACKAGES \<or>
          (\<exists>x w1. get_latest_package_version env (property ev ''PackageName'') w = (Inl x, w1)) \<or>
          (\<exists>v w1 x w2.
             get_latest_package_version env (property ev ''PackageName'') w = (Inr v, w1) \<and>
             create_layer_package env (property ev ''PackageName'') v (property ev ''Runtime'') w1
               = (Inl x, w2)) \<or>
          (\<exists>v w1.
             get_latest_package_version env (property ev ''PackageName'') w = (Inr v, w1) \<and>
             upload_file env
               (zip_file_path (property ev ''PackageName'') v (property ev ''Runtime''))
               (property ev ''BucketName'')
               (s3_key (property ev ''Runtime'') (property ev ''Architecture'')
                  (property ev ''PackageName'')) \<noteq> Returns))"
      using k by (auto simp: upload_layer_result)
    have 4: "map responseStatus (create_sent ?r) = [''SUCCESS'']"
      by (simp add: s)
    have 5: "calls (create_world ?r) =
                   calls w @
                     [HttpGet (pypi_url (property ev ''PackageName'')),
                      PipInstall (property ev ''PackageName'' @ ''=='' @ PackageVersion d)
                        site_packages_dir,
                      UploadFile
                        (zip_file_path (property ev ''PackageName'') (PackageVersion d)
                           (property ev ''Runtime''))
                        (property ev ''BucketName'')
                        (s3_key (property ev ''Runtime'') (property ev ''Architecture'')
                           (property ev ''PackageName''))] \<and>
                 upload_file env
                   (zip_file_path (property ev ''PackageName'') (PackageVersion d)
                      (property ev ''Runtime''))
                   (property ev ''BucketName'')
                   (s3_key (property ev ''Runtime'') (property ev ''Architecture'')
                      (property ev ''PackageName'')) = Returns"
      using c by (simp add: s)
    from 1 2 3 4 5 show ?thesis by blast
  qed
qed

theorem failure_reports_empty_result_witness:
  "RequestType example_event \<noteq> Some ''Delete'' \<and>
   get_latest_package_version example_env_upload_fails ''aws-lambda-powertools'' example_world
     = (Inr ''3.4.0'',
        \<lparr>files = {''/tmp''},
         calls = [HttpGet ''https://pypi.org/pypi/aws-lambda-powertools/json'']\<rparr>) \<and>
   upload_file example_env_upload_fails
     (zip_file_path ''aws-lambda-powertools'' ''3.4.0'' ''python3.12'') ''my-bucket''
     (s3_key ''python3.12'' ''arm64'' ''aws-lambda-powertools'') = Raises ''Access Denied'' \<and>
   map responseStatus
     (create_sent (lambda_handler_create example_event example_env_upload_fails example_world))
     = [''FAILED''] \<and>
   create_returned (lambda_handler_create example_event example_env_upload_fails example_world) =
     \<lparr>S3Location = '''', S3Bucket = '''', S3Key = '''', PackageName = '''',
      PackageVersion = '''', PackageImportName = '''', CompatibleRuntimes = '''',
      CompatibleArchitectures = ''''\<rparr> \<and>
   create_returned (lambda_handler_create example_event example_env example_world)
     \<noteq> create_response_data \<and>
   map responseStatus
     (create_sent (lambda_handler_create example_event example_env example_world))
     = [''SUCCESS'']"
proof -
  have h: "RequestType example_event \<noteq> Some ''Delete''"
    by (simp add: example_props)
  have g: "get_latest_package_version example_env_upload_fails ''aws-lambda-powertools''
             example_world
     = (Inr ''3.4.0'',
        \<lparr>files = {''/tmp''},
         calls = [HttpGet ''https://pypi.org/pypi/aws-lambda-powertools/json'']\<rparr>)"
    by (simp add: get_latest_package_version_def pypi_version_def pypi_url_def example_env_def
        example_env_upload_fails_def example_world_def log_call_def)
  have u: "upload_file example_env_upload_fails
     (zip_file_path ''aws-lambda-powertools'' ''3.4.0'' ''python3.12'') ''my-bucket''
     (s3_key ''python3.12'' ''arm64'' ''aws-lambda-powertools'') = Raises ''Access Denied''"
    by (simp add: example_env_upload_fails_def example_env_def)
  have p: "create_returned (lambda_handler_create example_event example_env example_world)
     \<noteq> create_response_data"
    by (simp add: example_run create_response_data_def)
  from failure_reports_empty_result [OF h, of example_env_upload_fails example_world]
    failure_reports_empty_result [OF h, of example_env example_world]
  show ?thesis
    using h g u p by (simp add: example_props)
qed

text \<open>
  Claim C3, as stated, says the key is the runtime without dots, the architecture and the
  package name put side by side with nothing in between, then \<^verbatim>\<open>.zip\<close>. The code joins
  the three with hyphens: for \<^verbatim>\<open>python3.12\<close>, \<^verbatim>\<open>arm64\<close>, \<^verbatim>\<open>aws-lambda-powertools\<close>
  the key is \<^verbatim>\<open>python312-arm64-aws-lambda-powertools.zip\<close>, which is not the plain
  concatenation.
\<close>

theorem s3_key_no_delimiter_counterexample:
  "event_properties example_event ''Runtime'' = Some ''python3.12'' \<and>
   event_properties example_event ''Architecture'' = Some ''arm64'' \<and>
   event_properties example_event ''PackageName'' = Some ''aws-lambda-powertools'' \<and>
   S3Key (create_returned (lambda_handler_create example_event example_env example_world))
     = ''python312-arm64-aws-lambda-powertools.zip'' \<and>
   S3Key (create_returned (lambda_handler_create example_event example_env example_world))
     \<noteq> str_replace CHR ''.'' '''' ''python3.12'' @ ''arm64'' @ ''aws-lambda-powertools'' @ ''.zip''"
  by (simp add: example_run example_props str_replace_def)

text \<open>
  Claim C3, amended. The key is the runtime with its dots removed, a hyphen, the
  architecture, a hyphen, the package name, then \<^verbatim>\<open>.zip\<close>. A build that signals
  \<^verbatim>\<open>SUCCESS\<close> reports that key as \<^verbatim>\<open>S3Key\<close>, and its last outside call is the upload
  under that key into the requested bucket.
\<close>

theorem s3_key_hyphen_delimited:
  "s3_key runtime architecture package_name =
     filter (\<lambda>c. c \<noteq> CHR ''.'') runtime @ ''-'' @ architecture @ ''-'' @ package_name @ ''.zip'' \<and>
   (RequestType ev \<noteq> Some ''Delete'' \<and>
    map responseStatus (create_sent (lambda_handler_create ev env w)) = [''SUCCESS''] \<longrightarrow>
      S3Key (create_returned (lambda_handler_create ev env w)) =
        filter (\<lambda>c. c \<noteq> CHR ''.'') (property ev ''Runtime'') @ ''-'' @
        property ev ''Architecture'' @ ''-'' @ property ev ''PackageName'' @ ''.zip'' \<and>
      (\<exists>f. last (calls (create_world (lambda_handler_create ev env w))) =
             UploadFile f (property ev ''BucketName'')
               (S3Key (create_returned (lambda_handler_create ev env w)))))"
proof -
  have k: "\<And>r a n. s3_key r a n = filter (\<lambda>c. c \<noteq> CHR ''.'') r @ ''-'' @ a @ ''-'' @ n @ ''.zip''"
    by (simp add: s3_key_def layer_name_def str_replace_delete)
  have h: "RequestType ev \<noteq> Some ''Delete'' \<and>
        map responseStatus (create_sent (lambda_handler_create ev env w)) = [''SUCCESS''] \<longrightarrow>
        S3Key (create_returned (lambda_handler_create ev env w)) =
          s3_key (property ev ''Runtime'') (property ev ''Architecture'')
            (property ev ''PackageName'') \<and>
        (\<exists>f. last (calls (create_world (lambda_handler_create ev env w))) =
               UploadFile f (property ev ''BucketName'')
                 (S3Key (create_returned (lambda_handler_create ev env w))))"
    using build_layer_success_calls [OF handler_status_success, of ev env w]
    by simp
  show ?thesis
    using h unfolding k by auto
qed

theorem s3_key_hyphen_delimited_witness:
  "RequestType example_event \<noteq> Some ''Delete'' \<and>
   map responseStatus (create_sent (lambda_handler_create example_event example_env example_world))
     = [''SUCCESS''] \<and>
   S3Key (create_returned (lambda_handler_create example_event example_env example_world))
     = ''python312'' @ ''-'' @ ''arm64'' @ ''-'' @ ''aws-lambda-powertools'' @ ''.zip'' \<and>
   s3_key ''python3.13'' ''x86_64'' ''boto3'' = ''python313-x86_64-boto3.zip''"
proof -
  have h: "RequestType example_event \<noteq> Some ''Delete''"
    by (simp add: example_props)
  have s: "map responseStatus
             (create_sent (lambda_handler_create example_event example_env example_world))
           = [''SUCCESS'']"
    by (simp add: example_run)
  from s3_key_hyphen_delimited [of "''python3.13''" "''x86_64''" "''boto3''"
      example_event example_env example_world] h s
  show ?thesis
    by (simp add: example_props)
qed

text \<open>
  Claim C4. The key depends on \<^verbatim>\<open>Runtime\<close>, \<^verbatim>\<open>Architecture\<close> and \<^verbatim>\<open>PackageName\<close>
  only. Take two invocations whose events agree on these three properties, in any two
  worlds and with any other inputs (bucket, resolved version, request type): every key
  either of them passes to \<^verbatim>\<open>upload_file\<close> is the same key, and when both signal
  \<^verbatim>\<open>SUCCESS\<close> they report the same \<^verbatim>\<open>S3Key\<close>.
\<close>

theorem s3_key_deterministic:
  assumes "event_properties eva ''Runtime'' = event_properties evb ''Runtime''"
    and "event_properties eva ''Architecture'' = event_properties evb ''Architecture''"
    and "event_properties eva ''PackageName'' = event_properties evb ''PackageName''"
  shows "(calls (create_world (lambda_handler_create eva enva wa)) = calls wa @ csa \<and>
          calls (create_world (lambda_handler_create evb envb wb)) = calls wb @ csb \<and>
          UploadFile fa ba ka \<in> set csa \<and> UploadFile fb bb kb \<in> set csb \<longrightarrow>
            ka = kb \<and>
            ka = s3_key (property eva ''Runtime'') (property eva ''Architecture'')
                   (property eva ''PackageName'')) \<and>
         (RequestType eva \<noteq> Some ''Delete'' \<and> RequestType evb \<noteq> Some ''Delete'' \<and>
          map responseStatus (create_sent (lambda_handler_create eva enva wa)) = [''SUCCESS''] \<and>
          map responseStatus (create_sent (lambda_handler_create evb envb wb)) = [''SUCCESS''] \<longrightarrow>
            S3Key (create_returned (lambda_handler_create eva enva wa)) =
            S3Key (create_returned (lambda_handler_create evb envb wb)))"
proof -
  have a: "calls (create_world (lambda_handler_create eva enva wa)) = calls wa @ csa \<Longrightarrow>
           UploadFile fa ba ka \<in> set csa \<Longrightarrow>
           ka = s3_key (property eva ''Runtime'') (property eva ''Architecture'')
                  (property eva ''PackageName'')"
    by (rule handler_trace)
  have b: "calls (create_world (lambda_handler_create evb envb wb)) = calls wb @ csb \<Longrightarrow>
           UploadFile fb bb kb \<in> set csb \<Longrightarrow>
           kb = s3_key (property eva ''Runtime'') (property eva ''Architecture'')
                  (property eva ''PackageName'')"
    unfolding assms by (rule handler_trace)
  have c: "RequestType eva \<noteq> Some ''Delete'' \<Longrightarrow>
           map responseStatus (create_sent (lambda_handler_create eva enva wa)) = [''SUCCESS''] \<Longrightarrow>
           S3Key (create_returned (lambda_handler_create eva enva wa)) =
             s3_key (property eva ''Runtime'') (property eva ''Architecture'')
               (property eva ''PackageName'')"
    using build_layer_success_calls [OF handler_status_success, of eva enva wa] by simp
  have d: "RequestType evb \<noteq> Some ''Delete'' \<Longrightarrow>
           map responseStatus (create_sent (lambda_handler_create evb envb wb)) = [''SUCCESS''] \<Longrightarrow>
           S3Key (create_returned (lambda_handler_create evb envb wb)) =
             s3_key (property eva ''Runtime'') (property eva ''Architecture'')
               (property eva ''PackageName'')"
    unfolding assms
    using build_layer_success_calls [OF handler_status_success, of evb envb wb] by simp
  show ?thesis
  proof (intro conjI impI)
    assume h: "calls (create_world (lambda_handler_create eva enva wa)) = calls wa @ csa \<and>
          calls (create_world (lambda_handler_create evb envb wb)) = calls wb @ csb \<and>
          UploadFile fa ba ka \<in> set csa \<and> UploadFile fb bb kb \<in> set csb"
    from h a show "ka = s3_key (property eva ''Runtime'') (property eva ''Architecture'')
                   (property eva ''PackageName'')"
      by simp
    moreover from h b have "kb = s3_key (property eva ''Runtime'') (property eva ''Architecture'')
                   (property eva ''PackageName'')"
      by simp
    ultimately show "ka = kb" by simp
  next
    assume h: "RequestType eva \<noteq> Some ''Delete'' \<and> RequestType evb \<noteq> Some ''Delete'' \<and>
          map responseStatus (create_sent (lambda_handler_create eva enva wa)) = [''SUCCESS''] \<and>
          map responseStatus (create_sent (lambda_handler_create evb envb wb)) = [''SUCCESS'']"
    from h c d show "S3Key (create_returned (lambda_handler_create eva enva wa)) =
            S3Key (create_returned (lambda_handler_create evb envb wb))"
      by simp
  qed
qed

theorem s3_key_deterministic_witness:
  "event_properties example_event ''Runtime''
     = event_properties example_event_other_bucket ''Runtime'' \<and>
   event_properties example_event ''Architecture''
     = event_properties example_event_other_bucket ''Architecture'' \<and>
   event_properties example_event ''PackageName''
     = event_properties example_event_other_bucket ''PackageName'' \<and>
   PackageVersion (create_returned (lambda_handler_create example_event example_env example_world))
     = ''3.4.0'' \<and>
   PackageVersion (create_returned
      (lambda_handler_create example_event_other_bucket example_env_newer_version example_world))
     = ''3.5.1'' \<and>
   S3Bucket (create_returned (lambda_handler_create example_event example_env example_world))
     = ''my-bucket'' \<and>
   S3Bucket (create_returned
      (lambda_handler_create example_event_other_bucket example_env_newer_version example_world))
     = ''other-bucket'' \<and>
   S3Key (create_returned (lambda_handler_create example_event example_env example_world)) =
   S3Key (create_returned
      (lambda_handler_create example_event_other_bucket example_env_newer_version example_world))"
proof -
  have p: "event_properties example_event ''Runtime''
             = event_properties example_event_other_bucket ''Runtime''"
    "event_properties example_event ''Architecture''
             = event_properties example_event_other_bucket ''Architecture''"
    "event_properties example_event ''PackageName''
             = event_properties example_event_other_bucket ''PackageName''"
    by (simp_all add: example_props example_other_props)
  have s: "RequestType example_event \<noteq> Some ''Delete''"
    "RequestType example_event_other_bucket \<noteq> Some ''Delete''"
    "map responseStatus
       (create_sent (lambda_handler_create example_event example_env example_world))
       = [''SUCCESS'']"
    "map responseStatus
       (create_sent (lambda_handler_create example_event_other_bucket
          example_env_newer_version example_world)) = [''SUCCESS'']"
    by (simp_all add: example_props example_other_props example_run example_other_run)
  have "S3Key (create_returned (lambda_handler_create example_event example_env example_world)) =
    S3Key (create_returned
      (lambda_handler_create example_event_other_bucket example_env_newer_version example_world))"
    using s3_key_deterministic [where enva = example_env and wa = example_world and
          envb = example_env_newer_version and wb = example_world, OF p, THEN conjunct2] s
    by simp
  moreover have "PackageVersion (create_returned
       (lambda_handler_create example_event example_env example_world)) = ''3.4.0''"
    "PackageVersion (create_returned
      (lambda_handler_create example_event_other_bucket example_env_newer_version example_world))
     = ''3.5.1''"
    "S3Bucket (create_returned (lambda_handler_create example_event example_env example_world))
     = ''my-bucket''"
    "S3Bucket (create_returned
      (lambda_handler_create example_event_other_bucket example_env_newer_version example_world))
     = ''other-bucket''"
    by (simp_all add: example_run example_other_run)
  ultimately show ?thesis
    using p by blast
qed

section \<open>The build orchestrator: what is left in the scratch root\<close>

text \<open>
  Claim C5 says that after any build attempt, also one where \<^verbatim>\<open>create_layer_package\<close>
  fails at any step, the local archive is gone before the handler returns. The
  \<^verbatim>\<open>finally\<close> clause of \<^verbatim>\<open>create_layer_package\<close> removes the two staging directories
  only, and the clause that removes the archive is around the upload, which a failed
  build never reaches. So when \<^verbatim>\<open>shutil.make_archive\<close> raises after it has opened the
  archive (here: the scratch root is full), the handler signals \<^verbatim>\<open>FAILED\<close> and
  returns while the archive, which was not there before, is still in the scratch root.
\<close>

theorem archive_left_behind_when_archiving_fails:
  "RequestType example_event = Some ''Create'' \<and>
   zip_file_path ''aws-lambda-powertools'' ''3.4.0'' ''python3.12''
     = ''/tmp/aws-lambda-powertools-python3.12-3.4.0.zip'' \<and>
   ''/tmp/aws-lambda-powertools-python3.12-3.4.0.zip'' \<notin> files example_world \<and>
   map responseStatus
     (create_sent (lambda_handler_create example_event example_env_archive_fails example_world))
     = [''FAILED''] \<and>
   ''/tmp/aws-lambda-powertools-python3.12-3.4.0.zip''
     \<in> files (create_world
                (lambda_handler_create example_event example_env_archive_fails example_world))"
proof -
  have "''/tmp/aws-lambda-powertools-python3.12-3.4.0.zip'' \<notin> files example_world"
    by (simp add: example_world_def)
  moreover have "zip_file_path ''aws-lambda-powertools'' ''3.4.0'' ''python3.12''
     = ''/tmp/aws-lambda-powertools-python3.12-3.4.0.zip''"
    by (simp add: zip_file_path_def os_path_join_def temp_root_def)
  ultimately show ?thesis
    by (simp add: example_archive_fails_run example_props)
qed

text \<open>
  What the two \<^verbatim>\<open>finally\<close> clauses do give. On a build event that passes the checks
  and resolves a version \<open>v\<close>, so that \<^verbatim>\<open>create_layer_package\<close> is called: when the
  handler returns, neither staging directory exists, whichever step failed; and the
  archive does not exist either, whether the build succeeded or failed and whether the
  upload succeeded or failed, unless \<^verbatim>\<open>shutil.make_archive\<close> raised and left its output.
\<close>

theorem staging_cleanup:
  assumes nd: "RequestType ev \<noteq> Some ''Delete''"
    and m: "missing_props (event_properties ev) = []"
    and s: "property ev ''PackageName'' \<in> set SUPPORTED_PACKAGES"
    and g: "get_latest_package_version env (property ev ''PackageName'') w = (Inr v, w1)"
  shows "''/tmp/site-packages'' \<notin> files (create_world (lambda_handler_create ev env w)) \<and>
         ''/tmp/python'' \<notin> files (create_world (lambda_handler_create ev env w)) \<and>
         ((\<forall>msg. shutil_make_archive env
                   (splitext_root
                      (zip_file_path (property ev ''PackageName'') v (property ev ''Runtime'')))
                   ''/tmp'' ''python'' \<noteq> RaisesLeaving msg) \<longrightarrow>
            zip_file_path (property ev ''PackageName'') v (property ev ''Runtime'')
              \<notin> files (create_world (lambda_handler_create ev env w)))"
proof -
  let ?n = "property ev ''PackageName''" and ?r = "property ev ''Runtime''"
  let ?zip = "zip_file_path ?n v ?r"
  let ?W = "create_world (lambda_handler_create ev env w)"
  from m have ne: "?n \<noteq> []" "?r \<noteq> []"
    by (simp_all add: missing_props_empty not_falsy)
  from g have v: "v \<noteq> []"
    by (rule get_latest_version_nonempty)
  obtain rc w2 where c: "create_layer_package env ?n v ?r w1 = (rc, w2)"
    by (cases "create_layer_package env ?n v ?r w1")
  note d = create_layer_package_dirs [OF c ne(1) v ne(2)]
  have W: "?W = (case rc of
              Inl e \<Rightarrow> w2
            | Inr z \<Rightarrow>
                snd (upload_layer env z (property ev ''BucketName'')
                       (s3_key ?r (property ev ''Architecture'') ?n) w2))"
    using nd build_layer_world [OF m s g c] by (simp add: handler_world)
  show ?thesis
  proof (cases rc)
    case (Inl x)
    with W have eq: "?W = w2" by simp
    have "(\<forall>msg. shutil_make_archive env (splitext_root ?zip) ''/tmp'' ''python''
                  \<noteq> RaisesLeaving msg) \<longrightarrow> ?zip \<notin> files w2"
      using create_layer_package_failure_zip [OF c [unfolded Inl] s v ne(2)]
      by (simp add: temp_root_def)
    with d show ?thesis
      unfolding eq by (simp add: staging_dirs_paths)
  next
    case (Inr z)
    with c have z: "z = ?zip"
      using create_layer_package_result by blast
    obtain ru w3 where u: "upload_layer env ?zip (property ev ''BucketName'')
                       (s3_key ?r (property ev ''Architecture'') ?n) w2 = (ru, w3)"
      by (cases "upload_layer env ?zip (property ev ''BucketName'')
                       (s3_key ?r (property ev ''Architecture'') ?n) w2")
    with W Inr z have eq: "?W = w3" by simp
    from upload_layer_world [OF u] have "files w3 = files w2 - {?zip}" by simp
    with d show ?thesis
      unfolding eq by (simp add: staging_dirs_paths)
  qed
qed

theorem staging_cleanup_witness:
  "RequestType example_event \<noteq> Some ''Delete'' \<and>
   missing_props (event_properties example_event) = [] \<and>
   property example_event ''PackageName'' \<in> set SUPPORTED_PACKAGES \<and>
   get_latest_package_version example_env (property example_event ''PackageName'') example_world
     = (Inr ''3.4.0'',
        \<lparr>files = {''/tmp''},
         calls = [HttpGet ''https://pypi.org/pypi/aws-lambda-powertools/json'']\<rparr>) \<and>
   shutil_make_archive example_env
     (splitext_root (zip_file_path ''aws-lambda-powertools'' ''3.4.0'' ''python3.12''))
     ''/tmp'' ''python'' = Returns \<and>
   ''/tmp/site-packages''
     \<notin> files (create_world (lambda_handler_create example_event example_env example_world)) \<and>
   ''/tmp/python''
     \<notin> files (create_world (lambda_handler_create example_event example_env example_world)) \<and>
   zip_file_path ''aws-lambda-powertools'' ''3.4.0'' ''python3.12''
     \<notin> files (create_world (lambda_handler_create example_event example_env example_world)) \<and>
   ''/tmp/site-packages''
     \<notin> files (create_world
          (lambda_handler_create example_event example_env_upload_fails example_world)) \<and>
   zip_file_path ''aws-lambda-powertools'' ''3.4.0'' ''python3.12''
     \<notin> files (create_world
          (lambda_handler_create example_event example_env_upload_fails example_world))"
proof -
  have nd: "RequestType example_event \<noteq> Some ''Delete''"
    by (simp add: example_props)
  have n: "property example_event ''PackageName'' = ''aws-lambda-powertools''"
    and r: "property example_event ''Runtime'' = ''python3.12''"
    by (simp_all add: example_props)
  have s: "property example_event ''PackageName'' \<in> set SUPPORTED_PACKAGES"
    by (simp add: n example_supported)
  have g: "get_latest_package_version example_env (property example_event ''PackageName'')
             example_world
     = (Inr ''3.4.0'',
        \<lparr>files = {''/tmp''},
         calls = [HttpGet ''https://pypi.org/pypi/aws-lambda-powertools/json'']\<rparr>)"
    by (simp add: n example_version)
  have g': "get_latest_package_version example_env_upload_fails
              (property example_event ''PackageName'') example_world
     = (Inr ''3.4.0'',
        \<lparr>files = {''/tmp''},
         calls = [HttpGet ''https://pypi.org/pypi/aws-lambda-powertools/json'']\<rparr>)"
    by (simp add: n get_latest_package_version_def pypi_version_def pypi_url_def
        example_env_def example_env_upload_fails_def example_world_def log_call_def)
  have a: "\<And>b. shutil_make_archive example_env b ''/tmp'' ''python'' = Returns"
    "\<And>b. shutil_make_archive example_env_upload_fails b ''/tmp'' ''python'' = Returns"
    by (simp_all add: example_env_def example_env_upload_fails_def)
  from staging_cleanup [OF nd example_missing_none s g]
    staging_cleanup [OF nd example_missing_none s g']
  show ?thesis
    using nd example_missing_none s g by (simp add: a n r)
qed

end
